theory Spec2Isabelle
  imports Complex_Main "HOL-Library.List_Lexorder" "HOL-Library.Char_ord" "HOL-Library.Sublist"
    "HOL-Library.Log_Nat"
begin

section \<open>Data model (src/types/index.ts)\<close>

text \<open>
  The interfaces of \<^verbatim>\<open>src/types/index.ts\<close> become records. A field carries its interface's
  name in front (\<open>customer_balance c\<close> for \<^verbatim>\<open>c.balance\<close>, \<open>item_total i\<close> for
  \<^verbatim>\<open>item.total\<close>), so that parameters and local variables keep the names they have in the
  source. String-literal unions become datatypes, an optional field becomes an \<open>option\<close>.

  A JavaScript \<^verbatim>\<open>number\<close> is modelled as an exact rational: sums, differences and products
  are the mathematical ones, without the rounding of IEEE doubles, \<^verbatim>\<open>NaN\<close> or infinities.
  Where the rounding decides a property (the balance that \<^verbatim>\<open>createTransaction\<close> writes twice),
  the section on double arithmetic models it.
  Strings are compared as JavaScript compares them, lexicographically by character code.
\<close>

datatype CustomerType = Institutions | Shops | Individuals

datatype PaymentMethod = Cash | Vodafone_Cash | Bank_Transfer | Cheque

datatype ProductCategory = Structural | Exterior | Decorative

datatype UserRole = admin | supervisor | user

datatype InvoiceStatus = pending | paid | partial | cancelled

datatype InvoiceType = inv_sale | inv_return

datatype PaymentType = pay_payment | pay_refund

datatype TransactionType = tx_invoice | tx_payment | tx_return

record UserProfile =
  user_uid :: string
  user_email :: string
  user_displayName :: string
  user_role :: UserRole
  user_createdAt :: string
  user_lastLogin :: string

record Product =
  product_id :: string
  product_name :: string
  product_category :: ProductCategory
  product_batchCode :: "string option"
  product_price :: rat
  product_stock :: rat
  product_lowStockThreshold :: rat
  product_createdAt :: string
  product_createdBy :: string
  product_updatedAt :: "string option"
  product_updatedBy :: "string option"

record Customer =
  customer_id :: string
  customer_fullName :: string
  customer_phone :: string
  customer_address :: string
  customer_type :: CustomerType
  customer_discountRate :: rat
  customer_balance :: rat
  customer_createdAt :: string
  customer_createdBy :: string
  customer_updatedAt :: "string option"
  customer_updatedBy :: "string option"

record InvoiceItem =
  item_productId :: string
  item_productName :: string
  item_quantity :: rat
  item_unitPrice :: rat
  item_total :: rat

record Deposit =
  deposit_amount :: rat
  deposit_method :: PaymentMethod
  deposit_paid :: bool

text \<open>
  \<^verbatim>\<open>Omit<Invoice, 'id'>\<close> (and likewise for payments and transactions) is the same record
  with the empty string in \<open>id\<close>; \<^verbatim>\<open>create\<close> overwrites that field.
\<close>

record Invoice =
  invoice_id :: string
  invoice_orderNumber :: string
  invoice_customerId :: string
  invoice_customerName :: string
  invoice_date :: string
  invoice_items :: "InvoiceItem list"
  invoice_subtotal :: rat
  invoice_discountRate :: rat
  invoice_discountAmount :: rat
  invoice_total :: rat
  invoice_paymentMethod :: PaymentMethod
  invoice_notes :: "string option"
  invoice_deposit :: "Deposit option"
  invoice_status :: InvoiceStatus
  invoice_type :: InvoiceType
  invoice_createdAt :: string
  invoice_createdBy :: string
  invoice_updatedAt :: "string option"
  invoice_updatedBy :: "string option"

record Payment =
  payment_id :: string
  payment_customerId :: string
  payment_customerName :: string
  payment_orderId :: "string option"
  payment_orderNumber :: "string option"
  payment_amount :: rat
  payment_method :: PaymentMethod
  payment_date :: string
  payment_notes :: "string option"
  payment_type :: PaymentType
  payment_createdAt :: string
  payment_createdBy :: string

record Transaction =
  transaction_id :: string
  transaction_customerId :: string
  transaction_type :: TransactionType
  transaction_description :: string
  transaction_debit :: rat
  transaction_credit :: rat
  transaction_balance :: rat
  transaction_date :: string
  transaction_referenceId :: string
  transaction_createdAt :: string
  transaction_createdBy :: string

section \<open>The persistence service (src/lib/mock-firestore.ts)\<close>

text \<open>
  \<^verbatim>\<open>MockFirestoreService\<close> keeps each collection as an array under a \<^verbatim>\<open>localStorage\<close> key
  (\<^verbatim>\<open>hcp_customers\<close>, ...). \<^verbatim>\<open>create\<close> pushes at the end, \<^verbatim>\<open>getById\<close> is \<^verbatim>\<open>find\<close>,
  \<^verbatim>\<open>update\<close> rewrites the row at \<^verbatim>\<open>findIndex\<close> and does nothing when there is none.
  Every method resolves; none rejects. The ledger functions of \<^verbatim>\<open>src/lib/firestore.ts\<close>
  have the same text over the same interface.
\<close>

record Storage =
  hcp_customers :: "Customer list"
  hcp_products :: "Product list"
  hcp_invoices :: "Invoice list"
  hcp_payments :: "Payment list"
  hcp_transactions :: "Transaction list"

text \<open>
  What an operation reads from outside the store: \<open>env_now\<close> is the value of
  \<^verbatim>\<open>new Date().toISOString()\<close> during the operation, \<open>env_newId c\<close> the identifier that
  \<^verbatim>\<open>create\<close> generates for a new row of collection \<open>c\<close>.
\<close>

record Env =
  env_now :: string
  env_newId :: "string \<Rightarrow> string"

text \<open>
  The outcome of a promise: \<open>Inr\<close> the store after it resolved, \<open>Inl\<close> the reason it
  rejected with. The reasons are the ones the specification names; the ledger functions
  construct none of them.
\<close>

datatype error = NotFoundError | ValidationError | PersistenceError | PartialWriteError

definition getById :: "('a \<Rightarrow> string) \<Rightarrow> 'a list \<Rightarrow> string \<Rightarrow> 'a option" where
  "getById idOf items ident = find (\<lambda>item. idOf item = ident) items"

fun update :: "('a \<Rightarrow> string) \<Rightarrow> string \<Rightarrow> ('a \<Rightarrow> 'a) \<Rightarrow> 'a list \<Rightarrow> 'a list" where
  "update idOf ident data [] = []"
| "update idOf ident data (item # rest) =
     (if idOf item = ident then data item # rest else item # update idOf ident data rest)"

definition customersService_getById :: "Storage \<Rightarrow> string \<Rightarrow> Customer option" where
  "customersService_getById s ident = getById customer_id (hcp_customers s) ident"

definition customersService_update :: "Env \<Rightarrow> string \<Rightarrow> (Customer \<Rightarrow> Customer) \<Rightarrow> Storage \<Rightarrow> Storage" where
  "customersService_update e ident data s =
     s\<lparr>hcp_customers :=
         update customer_id ident (\<lambda>item. (data item)\<lparr>customer_updatedAt := Some (env_now e)\<rparr>)
           (hcp_customers s)\<rparr>"

definition transactionsService_create :: "Env \<Rightarrow> Transaction \<Rightarrow> Storage \<Rightarrow> Storage" where
  "transactionsService_create e data s =
     s\<lparr>hcp_transactions := hcp_transactions s @
         [data\<lparr>transaction_id := env_newId e ''transactions'', transaction_createdAt := env_now e\<rparr>]\<rparr>"

definition paymentsService_create :: "Env \<Rightarrow> Payment \<Rightarrow> Storage \<Rightarrow> Storage" where
  "paymentsService_create e data s =
     s\<lparr>hcp_payments := hcp_payments s @
         [data\<lparr>payment_id := env_newId e ''payments'', payment_createdAt := env_now e\<rparr>]\<rparr>"

definition invoicesService_create :: "Env \<Rightarrow> Invoice \<Rightarrow> Storage \<Rightarrow> Storage" where
  "invoicesService_create e data s =
     s\<lparr>hcp_invoices := hcp_invoices s @
         [data\<lparr>invoice_id := env_newId e ''invoices'', invoice_createdAt := env_now e\<rparr>]\<rparr>"

definition invoicesService_update :: "Env \<Rightarrow> string \<Rightarrow> (Invoice \<Rightarrow> Invoice) \<Rightarrow> Storage \<Rightarrow> Storage" where
  "invoicesService_update e ident data s =
     s\<lparr>hcp_invoices :=
         update invoice_id ident (\<lambda>item. (data item)\<lparr>invoice_updatedAt := Some (env_now e)\<rparr>)
           (hcp_invoices s)\<rparr>"

section \<open>The transaction recorder (updateCustomerBalance, createTransaction)\<close>

definition updateCustomerBalance :: "Env \<Rightarrow> string \<Rightarrow> rat \<Rightarrow> Storage \<Rightarrow> error + Storage" where
  "updateCustomerBalance e customerId amount s =
     (case customersService_getById s customerId of
        Some customer \<Rightarrow>
          Inr (customersService_update e customerId
                 (\<lambda>item. item\<lparr>customer_balance := customer_balance customer + amount\<rparr>) s)
      | None \<Rightarrow> Inr s)"

definition createTransaction ::
  "Env \<Rightarrow> string \<Rightarrow> TransactionType \<Rightarrow> string \<Rightarrow> rat \<Rightarrow> rat \<Rightarrow> string \<Rightarrow> string
     \<Rightarrow> Storage \<Rightarrow> error + Storage" where
  "createTransaction e customerId type description debit credit referenceId createdBy s =
     (case customersService_getById s customerId of
        None \<Rightarrow> Inr s
      | Some customer \<Rightarrow>
          let newBalance = customer_balance customer + debit - credit;
              transaction = \<lparr>transaction_id = '''',
                             transaction_customerId = customerId,
                             transaction_type = type,
                             transaction_description = description,
                             transaction_debit = debit,
                             transaction_credit = credit,
                             transaction_balance = newBalance,
                             transaction_date = env_now e,
                             transaction_referenceId = referenceId,
                             transaction_createdAt = env_now e,
                             transaction_createdBy = createdBy\<rparr>
          in updateCustomerBalance e customerId (debit - credit)
               (transactionsService_create e transaction s))"

section \<open>The transaction recorder in double arithmetic\<close>

text \<open>
  A JavaScript \<^verbatim>\<open>number\<close> is an IEEE 754 binary64 value, and \<^verbatim>\<open>+\<close> and \<^verbatim>\<open>-\<close> round the exact
  result to the nearest such value, ties to the even significand. The finite doubles are
  the rationals \<open>n * 2 ^ e\<close> with \<open>\<bar>n\<bar> \<le> 2 ^ 53\<close> and \<open>- 1074 \<le> e\<close>; overflow to an
  infinity (results of magnitude \<open>2 ^ 1024\<close> and more) is not modelled.

  \<open>ilog2 y\<close> is the integer \<open>k\<close> with \<open>2 ^ k \<le> y < 2 ^ (k + 1)\<close>, for \<open>y > 0\<close>;
  \<open>round_double\<close> rounds at the exponent \<open>k - 52\<close>, and at \<open>- 1074\<close> in the subnormal
  range. A decimal literal such as \<^verbatim>\<open>100.1\<close> denotes \<open>round_double (1001 / 10)\<close>.
\<close>

definition roundHalfEven :: "rat \<Rightarrow> int" where
  "roundHalfEven x =
     (if x - of_int \<lfloor>x\<rfloor> < 1 / 2 then \<lfloor>x\<rfloor>
      else if 1 / 2 < x - of_int \<lfloor>x\<rfloor> then \<lfloor>x\<rfloor> + 1
      else if even \<lfloor>x\<rfloor> then \<lfloor>x\<rfloor> else \<lfloor>x\<rfloor> + 1)"

definition ilog2 :: "rat \<Rightarrow> int" where
  "ilog2 y = (if 1 \<le> y then bitlen \<lfloor>y\<rfloor> - 1 else - bitlen (\<lceil>1 / y\<rceil> - 1))"

definition round_double :: "rat \<Rightarrow> rat" where
  "round_double x =
     (if x = 0 then 0
      else of_int (roundHalfEven (x / 2 powi max (ilog2 \<bar>x\<bar> - 52) (- 1074)))
             * 2 powi max (ilog2 \<bar>x\<bar> - 52) (- 1074))"

definition isDouble :: "rat \<Rightarrow> bool" where
  "isDouble x = (round_double x = x)"

definition add_double :: "rat \<Rightarrow> rat \<Rightarrow> rat" where
  "add_double a b = round_double (a + b)"

definition sub_double :: "rat \<Rightarrow> rat \<Rightarrow> rat" where
  "sub_double a b = round_double (a - b)"

text \<open>
  \<^verbatim>\<open>updateCustomerBalance\<close> and \<^verbatim>\<open>createTransaction\<close> once more, word for word, with every
  \<^verbatim>\<open>+\<close> and \<^verbatim>\<open>-\<close> of the source rounded: the record carries
  \<^verbatim>\<open>(customer.balance + debit) - credit\<close>, the stored balance becomes
  \<^verbatim>\<open>customer.balance + (debit - credit)\<close>.
\<close>

definition updateCustomerBalance_double :: "Env \<Rightarrow> string \<Rightarrow> rat \<Rightarrow> Storage \<Rightarrow> error + Storage" where
  "updateCustomerBalance_double e customerId amount s =
     (case customersService_getById s customerId of
        Some customer \<Rightarrow>
          Inr (customersService_update e customerId
                 (\<lambda>item. item\<lparr>customer_balance := add_double (customer_balance customer) amount\<rparr>)
                 s)
      | None \<Rightarrow> Inr s)"

definition createTransaction_double ::
  "Env \<Rightarrow> string \<Rightarrow> TransactionType \<Rightarrow> string \<Rightarrow> rat \<Rightarrow> rat \<Rightarrow> string \<Rightarrow> string
     \<Rightarrow> Storage \<Rightarrow> error + Storage" where
  "createTransaction_double e customerId type description debit credit referenceId createdBy s =
     (case customersService_getById s customerId of
        None \<Rightarrow> Inr s
      | Some customer \<Rightarrow>
          let newBalance = sub_double (add_double (customer_balance customer) debit) credit;
              transaction = \<lparr>transaction_id = '''',
                             transaction_customerId = customerId,
                             transaction_type = type,
                             transaction_description = description,
                             transaction_debit = debit,
                             transaction_credit = credit,
                             transaction_balance = newBalance,
                             transaction_date = env_now e,
                             transaction_referenceId = referenceId,
                             transaction_createdAt = env_now e,
                             transaction_createdBy = createdBy\<rparr>
          in updateCustomerBalance_double e customerId (sub_double debit credit)
               (transactionsService_create e transaction s))"

section \<open>Recording a payment (Accounting.handleCreatePayment, PaymentForm.handleSubmit)\<close>

fun PaymentMethod_text :: "PaymentMethod \<Rightarrow> string" where
  "PaymentMethod_text Cash = ''Cash''"
| "PaymentMethod_text Vodafone_Cash = ''Vodafone Cash''"
| "PaymentMethod_text Bank_Transfer = ''Bank Transfer''"
| "PaymentMethod_text Cheque = ''Cheque''"

text \<open>\<^verbatim>\<open>userProfile?.displayName || 'Unknown'\<close>\<close>

definition displayNameOrUnknown :: "UserProfile option \<Rightarrow> string" where
  "displayNameOrUnknown userProfile =
     (case userProfile of
        None \<Rightarrow> ''Unknown''
      | Some u \<Rightarrow> if user_displayName u = '''' then ''Unknown'' else user_displayName u)"

text \<open>
  The handler's \<^verbatim>\<open>try/catch\<close> swallows a rejection and reports it in a dialog; the store
  then stays as the writes before the rejection left it.
\<close>

definition handleCreatePayment :: "Env \<Rightarrow> UserProfile option \<Rightarrow> Payment \<Rightarrow> Storage \<Rightarrow> Storage" where
  "handleCreatePayment e userProfile paymentData s =
     (let paymentId = env_newId e ''payments'';
          s1 = paymentsService_create e paymentData s
      in case createTransaction e (payment_customerId paymentData) tx_payment
                (''Payment - '' @ PaymentMethod_text (payment_method paymentData))
                0 (payment_amount paymentData) paymentId (displayNameOrUnknown userProfile) s1 of
           Inr s2 \<Rightarrow> s2
         | Inl err \<Rightarrow> s1)"

record PaymentFormData =
  paymentForm_customerId :: string
  paymentForm_orderId :: string
  paymentForm_orderNumber :: string
  paymentForm_amount :: rat
  paymentForm_method :: PaymentMethod
  paymentForm_date :: string
  paymentForm_notes :: string
  paymentForm_type :: PaymentType

text \<open>\<^verbatim>\<open>x || undefined\<close> on a string\<close>

definition orUndefined :: "string \<Rightarrow> string option" where
  "orUndefined x = (if x = '''' then None else Some x)"

definition validateForm :: "PaymentFormData \<Rightarrow> bool" where
  "validateForm formData =
     (\<not> (paymentForm_customerId formData = '''') \<and> \<not> (paymentForm_amount formData \<le> 0))"

definition PaymentForm_handleSubmit ::
  "Env \<Rightarrow> Customer list \<Rightarrow> UserProfile option \<Rightarrow> (Payment \<Rightarrow> Storage \<Rightarrow> Storage)
     \<Rightarrow> PaymentFormData \<Rightarrow> Storage \<Rightarrow> Storage" where
  "PaymentForm_handleSubmit e customers userProfile onSubmit formData s =
     (if \<not> validateForm formData then s
      else case find (\<lambda>c. customer_id c = paymentForm_customerId formData) customers of
             None \<Rightarrow> s
           | Some customer \<Rightarrow>
               onSubmit \<lparr>payment_id = '''',
                         payment_customerId = paymentForm_customerId formData,
                         payment_customerName = customer_fullName customer,
                         payment_orderId = orUndefined (paymentForm_orderId formData),
                         payment_orderNumber = orUndefined (paymentForm_orderNumber formData),
                         payment_amount = paymentForm_amount formData,
                         payment_method = paymentForm_method formData,
                         payment_date = paymentForm_date formData,
                         payment_notes = orUndefined (paymentForm_notes formData),
                         payment_type = paymentForm_type formData,
                         payment_createdAt = env_now e,
                         payment_createdBy = displayNameOrUnknown userProfile\<rparr> s)"

section \<open>The invoice form (components/Sales/InvoiceForm.tsx)\<close>

record InvoiceFormData =
  form_orderNumber :: string
  form_customerId :: string
  form_date :: string
  form_paymentMethod :: PaymentMethod
  form_notes :: string
  form_type :: InvoiceType
  form_status :: InvoiceStatus
  form_depositPaid :: bool
  form_depositAmount :: rat
  form_depositMethod :: PaymentMethod

definition addItem :: "InvoiceItem list \<Rightarrow> InvoiceItem list" where
  "addItem prev = prev @ [\<lparr>item_productId = '''', item_productName = '''', item_quantity = 1,
                            item_unitPrice = 0, item_total = 0\<rparr>]"

definition removeItem :: "nat \<Rightarrow> InvoiceItem list \<Rightarrow> InvoiceItem list" where
  "removeItem index prev = map snd (filter (\<lambda>(i, item). i \<noteq> index) (enumerate 0 prev))"

text \<open>
  \<^verbatim>\<open>updateItem(index, field, value)\<close>: the pair of a field of \<^verbatim>\<open>InvoiceItem\<close> and a value of
  that field's type is one constructor per field.
\<close>

datatype ItemField =
    field_productId string
  | field_productName string
  | field_quantity rat
  | field_unitPrice rat
  | field_total rat

fun setField :: "ItemField \<Rightarrow> InvoiceItem \<Rightarrow> InvoiceItem" where
  "setField (field_productId value) item = item\<lparr>item_productId := value\<rparr>"
| "setField (field_productName value) item = item\<lparr>item_productName := value\<rparr>"
| "setField (field_quantity value) item = item\<lparr>item_quantity := value\<rparr>"
| "setField (field_unitPrice value) item = item\<lparr>item_unitPrice := value\<rparr>"
| "setField (field_total value) item = item\<lparr>item_total := value\<rparr>"

fun lookupProduct :: "Product list \<Rightarrow> ItemField \<Rightarrow> InvoiceItem \<Rightarrow> InvoiceItem" where
  "lookupProduct products (field_productId value) updatedItem =
     (case find (\<lambda>p. product_id p = value) products of
        Some product \<Rightarrow> updatedItem\<lparr>item_productName := product_name product,
                                     item_unitPrice := product_price product\<rparr>
      | None \<Rightarrow> updatedItem)"
| "lookupProduct products field updatedItem = updatedItem"

fun recomputeTotal :: "ItemField \<Rightarrow> InvoiceItem \<Rightarrow> InvoiceItem" where
  "recomputeTotal (field_quantity value) updatedItem =
     updatedItem\<lparr>item_total := item_quantity updatedItem * item_unitPrice updatedItem\<rparr>"
| "recomputeTotal (field_unitPrice value) updatedItem =
     updatedItem\<lparr>item_total := item_quantity updatedItem * item_unitPrice updatedItem\<rparr>"
| "recomputeTotal field updatedItem = updatedItem"

definition updateItem :: "Product list \<Rightarrow> nat \<Rightarrow> ItemField \<Rightarrow> InvoiceItem list \<Rightarrow> InvoiceItem list" where
  "updateItem products index field prev =
     map (\<lambda>(i, item). if i \<noteq> index then item
                       else recomputeTotal field (lookupProduct products field (setField field item)))
       (enumerate 0 prev)"

text \<open>
  The object \<^verbatim>\<open>calculations\<close>: two stored properties and the getters \<^verbatim>\<open>discountAmount\<close> and
  \<^verbatim>\<open>total\<close>. \<^verbatim>\<open>selectedCustomer?.discountRate || 0\<close> is 0 without a selected customer.
\<close>

record Calculations =
  calculations_subtotal :: rat
  calculations_discountRate :: rat

definition calculations_discountAmount :: "Calculations \<Rightarrow> rat" where
  "calculations_discountAmount this =
     calculations_subtotal this * (calculations_discountRate this / 100)"

definition calculations_total :: "Calculations \<Rightarrow> rat" where
  "calculations_total this = calculations_subtotal this - calculations_discountAmount this"

definition calculations :: "InvoiceItem list \<Rightarrow> Customer option \<Rightarrow> Calculations" where
  "calculations items selectedCustomer =
     \<lparr>calculations_subtotal = foldl (\<lambda>sum item. sum + item_total item) 0 items,
      calculations_discountRate = (case selectedCustomer of None \<Rightarrow> 0 | Some c \<Rightarrow> customer_discountRate c)\<rparr>"

definition invoiceData ::
  "Env \<Rightarrow> Invoice option \<Rightarrow> UserProfile option \<Rightarrow> InvoiceFormData \<Rightarrow> InvoiceItem list
     \<Rightarrow> Customer option \<Rightarrow> Customer \<Rightarrow> Invoice" where
  "invoiceData e initialData userProfile formData items selectedCustomer customer =
     \<lparr>invoice_id = '''',
      invoice_orderNumber = form_orderNumber formData,
      invoice_customerId = form_customerId formData,
      invoice_customerName = customer_fullName customer,
      invoice_date = form_date formData,
      invoice_items = items,
      invoice_subtotal = calculations_subtotal (calculations items selectedCustomer),
      invoice_discountRate = calculations_discountRate (calculations items selectedCustomer),
      invoice_discountAmount = calculations_discountAmount (calculations items selectedCustomer),
      invoice_total = calculations_total (calculations items selectedCustomer),
      invoice_paymentMethod = form_paymentMethod formData,
      invoice_notes = Some (form_notes formData),
      invoice_deposit = (if form_depositPaid formData
                         then Some \<lparr>deposit_amount = form_depositAmount formData,
                                     deposit_method = form_depositMethod formData,
                                     deposit_paid = True\<rparr>
                         else None),
      invoice_status = form_status formData,
      invoice_type = form_type formData,
      invoice_createdAt = (case initialData of
                             None \<Rightarrow> env_now e
                           | Some i \<Rightarrow> if invoice_createdAt i = '''' then env_now e else invoice_createdAt i),
      invoice_createdBy = (case initialData of
                             None \<Rightarrow> displayNameOrUnknown userProfile
                           | Some i \<Rightarrow> if invoice_createdBy i = '''' then displayNameOrUnknown userProfile
                                       else invoice_createdBy i),
      invoice_updatedAt = None,
      invoice_updatedBy = None\<rparr>"

definition InvoiceForm_handleSubmit ::
  "Env \<Rightarrow> Customer list \<Rightarrow> Invoice option \<Rightarrow> UserProfile option \<Rightarrow> (Invoice \<Rightarrow> Storage \<Rightarrow> Storage)
     \<Rightarrow> InvoiceFormData \<Rightarrow> InvoiceItem list \<Rightarrow> Customer option \<Rightarrow> Storage \<Rightarrow> error + Storage" where
  "InvoiceForm_handleSubmit e customers initialData userProfile onSubmit formData items selectedCustomer s =
     (if form_customerId formData = '''' \<or> length items = 0 then Inr s
      else case find (\<lambda>c. customer_id c = form_customerId formData) customers of
             None \<Rightarrow> Inr s
           | Some customer \<Rightarrow>
               if initialData = None then
                 (let transactionAmount =
                        (if form_type formData = inv_sale
                         then calculations_total (calculations items selectedCustomer)
                         else - calculations_total (calculations items selectedCustomer))
                  in case updateCustomerBalance e (form_customerId formData) transactionAmount s of
                       Inl err \<Rightarrow> Inl err
                     | Inr s1 \<Rightarrow>
                         (case createTransaction e (form_customerId formData)
                                 (if form_type formData = inv_sale then tx_invoice else tx_return)
                                 ((if form_type formData = inv_sale then ''Invoice'' else ''Return'')
                                    @ '' '' @ form_orderNumber formData)
                                 (if form_type formData = inv_sale
                                  then calculations_total (calculations items selectedCustomer) else 0)
                                 (if form_type formData = inv_return
                                  then calculations_total (calculations items selectedCustomer) else 0)
                                 (form_orderNumber formData)
                                 (displayNameOrUnknown userProfile) s1 of
                            Inl err \<Rightarrow> Inl err
                          | Inr s2 \<Rightarrow>
                              Inr (onSubmit (invoiceData e initialData userProfile formData items
                                               selectedCustomer customer) s2)))
               else Inr (onSubmit (invoiceData e initialData userProfile formData items
                                     selectedCustomer customer) s))"

section \<open>The sales page (pages/Sales.tsx)\<close>

definition handleCreateInvoice :: "Env \<Rightarrow> Invoice \<Rightarrow> Storage \<Rightarrow> Storage" where
  "handleCreateInvoice e data s = invoicesService_create e data s"

text \<open>
  \<^verbatim>\<open>invoicesService.update(editingInvoice.id, {...invoiceData, updatedBy})\<close>: the stored row
  keeps its \<^verbatim>\<open>id\<close> and takes every other field from the submitted data.
\<close>

definition handleEditInvoice :: "Env \<Rightarrow> UserProfile option \<Rightarrow> Invoice option \<Rightarrow> Invoice \<Rightarrow> Storage \<Rightarrow> Storage" where
  "handleEditInvoice e userProfile editingInvoice data s =
     (case editingInvoice of
        None \<Rightarrow> s
      | Some editing \<Rightarrow>
          invoicesService_update e (invoice_id editing)
            (\<lambda>item. data\<lparr>invoice_id := invoice_id item,
                          invoice_updatedBy := Some (displayNameOrUnknown userProfile)\<rparr>) s)"

text \<open>
  The two dialogs of the page: "Create Invoice" renders the form without \<^verbatim>\<open>initialData\<close> and
  with \<^verbatim>\<open>handleCreateInvoice\<close>; "Edit" renders it with the invoice being edited and
  \<^verbatim>\<open>handleEditInvoice\<close>.
\<close>

definition Sales_createInvoice ::
  "Env \<Rightarrow> Customer list \<Rightarrow> UserProfile option \<Rightarrow> InvoiceFormData \<Rightarrow> InvoiceItem list
     \<Rightarrow> Customer option \<Rightarrow> Storage \<Rightarrow> error + Storage" where
  "Sales_createInvoice e customers userProfile formData items selectedCustomer s =
     InvoiceForm_handleSubmit e customers None userProfile (handleCreateInvoice e)
       formData items selectedCustomer s"

definition Sales_editInvoice ::
  "Env \<Rightarrow> Customer list \<Rightarrow> UserProfile option \<Rightarrow> Invoice \<Rightarrow> InvoiceFormData \<Rightarrow> InvoiceItem list
     \<Rightarrow> Customer option \<Rightarrow> Storage \<Rightarrow> error + Storage" where
  "Sales_editInvoice e customers userProfile editingInvoice formData items selectedCustomer s =
     InvoiceForm_handleSubmit e customers (Some editingInvoice) userProfile
       (handleEditInvoice e userProfile (Some editingInvoice)) formData items selectedCustomer s"

section \<open>The accounting page (pages/Accounting.tsx)\<close>

text \<open>The "Record Payment" dialog renders \<^verbatim>\<open>PaymentForm\<close> with \<^verbatim>\<open>handleCreatePayment\<close>.\<close>

definition Accounting_recordPayment ::
  "Env \<Rightarrow> Customer list \<Rightarrow> UserProfile option \<Rightarrow> PaymentFormData \<Rightarrow> Storage \<Rightarrow> Storage" where
  "Accounting_recordPayment e customers userProfile formData s =
     PaymentForm_handleSubmit e customers userProfile (handleCreatePayment e userProfile) formData s"

section \<open>Report filters (getFilteredData, Reports.generateSummaryReport)\<close>

text \<open>
  \<^verbatim>\<open>getFilteredData\<close> reads six properties of an item of any collection (\<^verbatim>\<open>item: any\<close>); a
  property the item does not have is \<open>None\<close>. A filter value or a property is truthy when it
  is a non-empty string.
\<close>

record ReportFilter =
  filter_startDate :: "string option"
  filter_endDate :: "string option"
  filter_customerId :: "string option"
  filter_productId :: "string option"
  filter_category :: "string option"
  filter_paymentMethod :: "string option"
  filter_status :: "string option"

record Item =
  any_date :: "string option"
  any_customerId :: "string option"
  any_productId :: "string option"
  any_category :: "string option"
  any_paymentMethod :: "string option"
  any_status :: "string option"

definition truthy :: "string option \<Rightarrow> bool" where
  "truthy x = (case x of None \<Rightarrow> False | Some v \<Rightarrow> v \<noteq> '''')"

text \<open>\<^verbatim>\<open>a < b\<close> on two strings; it is only evaluated after both were found truthy.\<close>

definition stringLess :: "string option \<Rightarrow> string option \<Rightarrow> bool" where
  "stringLess a b = (case (a, b) of (Some x, Some y) \<Rightarrow> x < y | _ \<Rightarrow> False)"

definition matchesEquality :: "ReportFilter \<Rightarrow> Item \<Rightarrow> bool" where
  "matchesEquality filters item =
     (if truthy (filter_customerId filters) \<and> any_customerId item \<noteq> filter_customerId filters
      then False
      else if truthy (filter_productId filters) \<and> any_productId item \<noteq> filter_productId filters
      then False
      else if truthy (filter_category filters) \<and> any_category item \<noteq> filter_category filters
      then False
      else if truthy (filter_paymentMethod filters)
              \<and> any_paymentMethod item \<noteq> filter_paymentMethod filters
      then False
      else if truthy (filter_status filters) \<and> any_status item \<noteq> filter_status filters
      then False
      else True)"

definition keepItem :: "ReportFilter \<Rightarrow> Item \<Rightarrow> bool" where
  "keepItem filters item =
     (if truthy (filter_startDate filters) \<and> truthy (any_date item)
         \<and> stringLess (any_date item) (filter_startDate filters)
      then False
      else if truthy (filter_endDate filters) \<and> truthy (any_date item)
              \<and> stringLess (filter_endDate filters) (any_date item)
      then False
      else matchesEquality filters item)"

definition getFilteredData :: "('a \<Rightarrow> Item) \<Rightarrow> ReportFilter \<Rightarrow> 'a list \<Rightarrow> 'a list" where
  "getFilteredData properties filters data = filter (\<lambda>item. keepItem filters (properties item)) data"

fun InvoiceStatus_text :: "InvoiceStatus \<Rightarrow> string" where
  "InvoiceStatus_text pending = ''pending''"
| "InvoiceStatus_text paid = ''paid''"
| "InvoiceStatus_text partial = ''partial''"
| "InvoiceStatus_text cancelled = ''cancelled''"

text \<open>What \<^verbatim>\<open>getFilteredData\<close> sees of an invoice and of a payment.\<close>

definition invoiceProperties :: "Invoice \<Rightarrow> Item" where
  "invoiceProperties invoice =
     \<lparr>any_date = Some (invoice_date invoice),
      any_customerId = Some (invoice_customerId invoice),
      any_productId = None,
      any_category = None,
      any_paymentMethod = Some (PaymentMethod_text (invoice_paymentMethod invoice)),
      any_status = Some (InvoiceStatus_text (invoice_status invoice))\<rparr>"

definition paymentProperties :: "Payment \<Rightarrow> Item" where
  "paymentProperties pay =
     \<lparr>any_date = Some (payment_date pay),
      any_customerId = Some (payment_customerId pay),
      any_productId = None,
      any_category = None,
      any_paymentMethod = None,
      any_status = None\<rparr>"

text \<open>The date range of \<^verbatim>\<open>generateSummaryReport\<close>, for invoices and for payments.\<close>

definition atLeastStart :: "ReportFilter \<Rightarrow> ('a \<Rightarrow> string) \<Rightarrow> 'a list \<Rightarrow> 'a list" where
  "atLeastStart filters dateOf rows =
     (case filter_startDate filters of
        None \<Rightarrow> rows
      | Some startDate \<Rightarrow>
          if startDate = '''' then rows else filter (\<lambda>row. dateOf row \<ge> startDate) rows)"

definition atMostEnd :: "ReportFilter \<Rightarrow> ('a \<Rightarrow> string) \<Rightarrow> 'a list \<Rightarrow> 'a list" where
  "atMostEnd filters dateOf rows =
     (case filter_endDate filters of
        None \<Rightarrow> rows
      | Some endDate \<Rightarrow>
          if endDate = '''' then rows else filter (\<lambda>row. dateOf row \<le> endDate) rows)"

definition filteredInvoices :: "ReportFilter \<Rightarrow> Invoice list \<Rightarrow> Invoice list" where
  "filteredInvoices filters invoices =
     atMostEnd filters invoice_date (atLeastStart filters invoice_date invoices)"

definition filteredPayments :: "ReportFilter \<Rightarrow> Payment list \<Rightarrow> Payment list" where
  "filteredPayments filters payments =
     atMostEnd filters payment_date (atLeastStart filters payment_date payments)"

section \<open>Top selling products (Dashboard.loadDashboardData)\<close>

text \<open>
  \<^verbatim>\<open>productSales\<close> is a plain object keyed by product id. It is modelled by the list of its
  own (key, value) pairs in the order in which they were created.

  Reading \<^verbatim>\<open>productSales[id]\<close> also finds the members that every object inherits from
  \<^verbatim>\<open>Object.prototype\<close>. They are truthy, so for such an id the test
  \<^verbatim>\<open>!productSales[id]\<close> fails, no own entry is created, and the two \<^verbatim>\<open>+=\<close> go to the inherited
  member.

  \<^verbatim>\<open>Object.values\<close> lists the own entries whose keys are array indices (canonical decimal
  numerals below \<open>2 ^ 32 - 1\<close>) first, in ascending numeric order, and the other entries
  after them in creation order. \<^verbatim>\<open>Array.prototype.sort\<close> is stable; with the comparator
  \<^verbatim>\<open>b.revenue - a.revenue\<close> it is the stable sort by negated revenue.
\<close>

record ProductSale =
  sale_name :: string
  sale_quantity :: rat
  sale_revenue :: rat

definition Object_prototype_keys :: "string list" where
  "Object_prototype_keys =
     [''constructor'', ''__defineGetter__'', ''__defineSetter__'', ''hasOwnProperty'',
      ''__lookupGetter__'', ''__lookupSetter__'', ''isPrototypeOf'', ''propertyIsEnumerable'',
      ''toString'', ''valueOf'', ''__proto__'', ''toLocaleString'']"





definition recordItem :: "(string \<times> ProductSale) list \<Rightarrow> InvoiceItem \<Rightarrow> (string \<times> ProductSale) list" where
  "recordItem productSales item =
     map (\<lambda>(key, entry).
            if key = item_productId item
            then (key, entry\<lparr>sale_quantity := sale_quantity entry + item_quantity item,
                              sale_revenue := sale_revenue entry + item_total item\<rparr>)
            else (key, entry))
       (if map_of productSales (item_productId item) = None
           \<and> item_productId item \<notin> set Object_prototype_keys
        then productSales @ [(item_productId item,
                              \<lparr>sale_name = item_productName item, sale_quantity = 0,
                               sale_revenue = 0\<rparr>)]
        else productSales)"

definition productSales :: "Invoice list \<Rightarrow> (string \<times> ProductSale) list" where
  "productSales invoices =
     foldl (\<lambda>acc invoice. foldl recordItem acc (invoice_items invoice)) [] invoices"





section \<open>Replaying a customer's ledger\<close>

text \<open>
  The customer statement (\<^verbatim>\<open>CustomerStatement.loadTransactions\<close>) takes the customer's
  transactions in ascending date order. Accumulating \<open>debit - credit\<close> over them is the
  replay that the specification compares with the stored balance.
\<close>

definition customerTransactions :: "string \<Rightarrow> Transaction list \<Rightarrow> Transaction list" where
  "customerTransactions customerId allTransactions =
     sort_key transaction_date (filter (\<lambda>t. transaction_customerId t = customerId) allTransactions)"

definition replayBalance :: "string \<Rightarrow> Transaction list \<Rightarrow> rat" where
  "replayBalance customerId allTransactions =
     foldl (\<lambda>acc t. acc + transaction_debit t - transaction_credit t) 0
       (customerTransactions customerId allTransactions)"

section \<open>Demo data (initializeDemoData in src/lib/mock-firestore.ts, src/lib/mock-auth.ts)\<close>

definition demoCustomers :: "Customer list" where
  "demoCustomers =
     [\<lparr>customer_id = ''cust-001'', customer_fullName = ''John Smith'',
       customer_phone = ''+1-555-0123'', customer_address = ''123 Main Street, City, State 12345'',
       customer_type = Individuals, customer_discountRate = 5, customer_balance = 250,
       customer_createdAt = ''2024-06-15T10:00:00.000Z'', customer_createdBy = ''System'',
       customer_updatedAt = None, customer_updatedBy = None\<rparr>,
      \<lparr>customer_id = ''cust-002'', customer_fullName = ''ABC Construction Corp'',
       customer_phone = ''+1-555-0456'',
       customer_address = ''456 Business Ave, Industrial Zone, State 67890'',
       customer_type = Institutions, customer_discountRate = 15, customer_balance = - 500,
       customer_createdAt = ''2024-06-16T11:30:00.000Z'', customer_createdBy = ''System'',
       customer_updatedAt = None, customer_updatedBy = None\<rparr>,
      \<lparr>customer_id = ''cust-003'', customer_fullName = ''City Hardware Store'',
       customer_phone = ''+1-555-0789'',
       customer_address = ''789 Commerce Street, Downtown, State 11111'',
       customer_type = Shops, customer_discountRate = 10, customer_balance = 251 / 2,
       customer_createdAt = ''2024-06-17T14:15:00.000Z'', customer_createdBy = ''System'',
       customer_updatedAt = None, customer_updatedBy = None\<rparr>]"

definition demoProducts :: "Product list" where
  "demoProducts =
     [\<lparr>product_id = ''prod-001'', product_name = ''Steel Beam 20ft'', product_category = Structural,
       product_batchCode = Some ''SB20-2024'', product_price = 150, product_stock = 45,
       product_lowStockThreshold = 10, product_createdAt = ''2024-06-15T08:00:00.000Z'',
       product_createdBy = ''System'', product_updatedAt = None, product_updatedBy = None\<rparr>,
      \<lparr>product_id = ''prod-002'', product_name = ''Concrete Block'', product_category = Structural,
       product_batchCode = Some ''CB-2024'', product_price = 17 / 2, product_stock = 250,
       product_lowStockThreshold = 50, product_createdAt = ''2024-06-15T08:15:00.000Z'',
       product_createdBy = ''System'', product_updatedAt = None, product_updatedBy = None\<rparr>]"

definition demoInvoices :: "Invoice list" where
  "demoInvoices =
     [\<lparr>invoice_id = ''inv-001'', invoice_orderNumber = ''HCP20240620001'',
       invoice_customerId = ''cust-001'', invoice_customerName = ''John Smith'',
       invoice_date = ''2024-06-20'',
       invoice_items = [\<lparr>item_productId = ''prod-001'', item_productName = ''Steel Beam 20ft'',
                          item_quantity = 2, item_unitPrice = 150, item_total = 300\<rparr>],
       invoice_subtotal = 300, invoice_discountRate = 5, invoice_discountAmount = 15,
       invoice_total = 285, invoice_paymentMethod = Cash, invoice_notes = None,
       invoice_deposit = None, invoice_status = paid, invoice_type = inv_sale,
       invoice_createdAt = ''2024-06-20T09:00:00.000Z'', invoice_createdBy = ''Admin User'',
       invoice_updatedAt = None, invoice_updatedBy = None\<rparr>,
      \<lparr>invoice_id = ''inv-002'', invoice_orderNumber = ''HCP20240620002'',
       invoice_customerId = ''cust-002'', invoice_customerName = ''ABC Construction Corp'',
       invoice_date = ''2024-06-20'',
       invoice_items = [\<lparr>item_productId = ''prod-002'', item_productName = ''Concrete Block'',
                          item_quantity = 100, item_unitPrice = 17 / 2, item_total = 850\<rparr>],
       invoice_subtotal = 850, invoice_discountRate = 15, invoice_discountAmount = 255 / 2,
       invoice_total = 1445 / 2, invoice_paymentMethod = Bank_Transfer, invoice_notes = None,
       invoice_deposit = None, invoice_status = pending, invoice_type = inv_sale,
       invoice_createdAt = ''2024-06-20T10:30:00.000Z'', invoice_createdBy = ''Admin User'',
       invoice_updatedAt = None, invoice_updatedBy = None\<rparr>]"

definition demoPayments :: "Payment list" where
  "demoPayments =
     [\<lparr>payment_id = ''pay-001'', payment_customerId = ''cust-001'',
       payment_customerName = ''John Smith'', payment_orderId = Some ''inv-001'',
       payment_orderNumber = Some ''HCP20240620001'', payment_amount = 285, payment_method = Cash,
       payment_date = ''2024-06-20'', payment_notes = None, payment_type = pay_payment,
       payment_createdAt = ''2024-06-20T09:15:00.000Z'', payment_createdBy = ''Admin User''\<rparr>]"

text \<open>The store after \<^verbatim>\<open>initializeDemoData\<close> (with the first two of its five products).\<close>

definition demoStorage :: Storage where
  "demoStorage = \<lparr>hcp_customers = demoCustomers, hcp_products = demoProducts,
                   hcp_invoices = demoInvoices, hcp_payments = demoPayments,
                   hcp_transactions = []\<rparr>"

definition demoEnv :: Env where
  "demoEnv = \<lparr>env_now = ''2024-06-21T08:00:00.000Z'',
               env_newId = (\<lambda>collectionName. collectionName @ ''-1718956800000-k3j9x2m1q'')\<rparr>"

definition adminUser :: UserProfile where
  "adminUser = \<lparr>user_uid = ''admin-001'', user_email = ''admin@hcp.com'',
                 user_displayName = ''Admin User'', user_role = admin,
                 user_createdAt = ''2024-01-01T00:00:00.000Z'',
                 user_lastLogin = ''2024-06-21T07:55:00.000Z''\<rparr>"

section \<open>Example inputs\<close>

text \<open>
  A store with one customer, John Smith's row with balance 0 and no transaction yet, and
  the form filled in for one sale: a line added, the product "Steel Beam 20ft" chosen, the
  quantity set to 2.
\<close>

definition exampleCustomer :: Customer where
  "exampleCustomer = (hd demoCustomers)\<lparr>customer_balance := 0\<rparr>"

definition exampleStorage :: Storage where
  "exampleStorage = \<lparr>hcp_customers = [exampleCustomer], hcp_products = demoProducts,
                      hcp_invoices = [], hcp_payments = [], hcp_transactions = []\<rparr>"

definition exampleForm :: InvoiceFormData where
  "exampleForm = \<lparr>form_orderNumber = ''HCP20240621956800'', form_customerId = ''cust-001'',
                   form_date = ''2024-06-21'', form_paymentMethod = Cash, form_notes = '''',
                   form_type = inv_sale, form_status = pending, form_depositPaid = False,
                   form_depositAmount = 0, form_depositMethod = Cash\<rparr>"

definition exampleItems :: "InvoiceItem list" where
  "exampleItems = updateItem demoProducts 0 (field_quantity 2)
                    (updateItem demoProducts 0 (field_productId ''prod-001'') (addItem []))"

text \<open>The same form when the quantity is left as the new line has it.\<close>

definition untouchedItems :: "InvoiceItem list" where
  "untouchedItems = updateItem demoProducts 0 (field_productId ''prod-001'') (addItem [])"

text \<open>Editing invoice inv-001: the quantity of its line raised from 2 to 4.\<close>

definition editForm :: InvoiceFormData where
  "editForm = \<lparr>form_orderNumber = ''HCP20240620001'', form_customerId = ''cust-001'',
                form_date = ''2024-06-20'', form_paymentMethod = Cash, form_notes = '''',
                form_type = inv_sale, form_status = paid, form_depositPaid = False,
                form_depositAmount = 0, form_depositMethod = Cash\<rparr>"

definition editItems :: "InvoiceItem list" where
  "editItems = updateItem demoProducts 0 (field_quantity 4) (invoice_items (hd demoInvoices))"

text \<open>A refund of 100 to John Smith, entered in the payment form.\<close>

definition refundForm :: PaymentFormData where
  "refundForm = \<lparr>paymentForm_customerId = ''cust-001'', paymentForm_orderId = '''',
                  paymentForm_orderNumber = '''', paymentForm_amount = 100,
                  paymentForm_method = Cash, paymentForm_date = ''2024-06-21'',
                  paymentForm_notes = '''', paymentForm_type = pay_refund\<rparr>"

text \<open>A report filter for the single day 2024-06-20, and one for the day after.\<close>

definition dayFilter :: "string \<Rightarrow> ReportFilter" where
  "dayFilter day = \<lparr>filter_startDate = Some day, filter_endDate = Some day,
                    filter_customerId = Some '''', filter_productId = Some '''',
                    filter_category = None, filter_paymentMethod = None,
                    filter_status = Some ''''\<rparr>"

text \<open>
  Three products over two invoices: A with revenue 60 + 40, B with 100, C with 50; A
  appears first.
\<close>

definition lineItem :: "string \<Rightarrow> rat \<Rightarrow> InvoiceItem" where
  "lineItem product amount = \<lparr>item_productId = product, item_productName = product,
                              item_quantity = 1, item_unitPrice = amount, item_total = amount\<rparr>"



text \<open>
  The example store when John Smith's balance is the double \<^verbatim>\<open>100.1\<close>, and the outcome's
  ledger.
\<close>

definition roundingStorage :: Storage where
  "roundingStorage =
     exampleStorage\<lparr>hcp_customers :=
       [exampleCustomer\<lparr>customer_balance := round_double (1001 / 10)\<rparr>]\<rparr>"

definition transactionsAfter :: "error + Storage \<Rightarrow> Transaction list" where
  "transactionsAfter outcome = (case outcome of Inl err \<Rightarrow> [] | Inr s \<Rightarrow> hcp_transactions s)"

text \<open>Reading an outcome: the customer's stored balance, and the replay of the ledger.\<close>

definition balanceAfter :: "string \<Rightarrow> error + Storage \<Rightarrow> rat option" where
  "balanceAfter customerId outcome =
     (case outcome of
        Inl err \<Rightarrow> None
      | Inr s \<Rightarrow> map_option customer_balance (customersService_getById s customerId))"

definition replayAfter :: "string \<Rightarrow> error + Storage \<Rightarrow> rat option" where
  "replayAfter customerId outcome =
     (case outcome of
        Inl err \<Rightarrow> None
      | Inr s \<Rightarrow> Some (replayBalance customerId (hcp_transactions s)))"

definition invoicesAfter :: "error + Storage \<Rightarrow> Invoice list" where
  "invoicesAfter outcome = (case outcome of Inl err \<Rightarrow> [] | Inr s \<Rightarrow> hcp_invoices s)"

section \<open>Facts about the persistence service\<close>

lemma getById_update_same:
  assumes "\<And>item. idOf (data item) = idOf item"
  shows "getById idOf (update idOf ident data items) ident = map_option data (getById idOf items ident)"
  using assms by (induction items) (simp_all add: getById_def)

lemma getById_Some_id: "getById idOf items ident = Some item \<Longrightarrow> idOf item = ident"
  by (induction items) (auto simp: getById_def split: if_splits)

lemma update_cases:
  "update idOf ident data items = items \<or>
   (\<exists>i. i < length items \<and> idOf (items ! i) = ident
        \<and> update idOf ident data items = items[i := data (items ! i)])"
proof (induction items)
  case Nil
  then show ?case by simp
next
  case (Cons item rest)
  show ?case
  proof (cases "idOf item = ident")
    case True
    then have "0 < length (item # rest) \<and> idOf ((item # rest) ! 0) = ident
        \<and> update idOf ident data (item # rest) = (item # rest)[0 := data ((item # rest) ! 0)]"
      by simp
    then show ?thesis by blast
  next
    case False
    from Cons.IH show ?thesis
    proof
      assume "update idOf ident data rest = rest"
      with False show ?thesis by simp
    next
      assume "\<exists>i. i < length rest \<and> idOf (rest ! i) = ident
        \<and> update idOf ident data rest = rest[i := data (rest ! i)]"
      then obtain i where i: "i < length rest" "idOf (rest ! i) = ident"
        "update idOf ident data rest = rest[i := data (rest ! i)]" by blast
      with False have "Suc i < length (item # rest) \<and> idOf ((item # rest) ! Suc i) = ident
        \<and> update idOf ident data (item # rest) = (item # rest)[Suc i := data ((item # rest) ! Suc i)]"
        by simp
      then show ?thesis by blast
    qed
  qed
qed

lemma updateCustomerBalance_existing:
  assumes "customersService_getById s customerId = Some customer"
  shows "updateCustomerBalance e customerId amount s =
           Inr (s\<lparr>hcp_customers :=
                    update customer_id customerId
                      (\<lambda>item. item\<lparr>customer_balance := customer_balance customer + amount,
                                    customer_updatedAt := Some (env_now e)\<rparr>)
                      (hcp_customers s)\<rparr>)"
  using assms by (simp add: updateCustomerBalance_def customersService_update_def)

lemma createTransaction_existing:
  assumes "customersService_getById s customerId = Some customer"
  shows "createTransaction e customerId type description debit credit referenceId createdBy s =
           Inr (s\<lparr>hcp_transactions := hcp_transactions s @
                     [\<lparr>transaction_id = env_newId e ''transactions'',
                       transaction_customerId = customerId,
                       transaction_type = type,
                       transaction_description = description,
                       transaction_debit = debit,
                       transaction_credit = credit,
                       transaction_balance = customer_balance customer + debit - credit,
                       transaction_date = env_now e,
                       transaction_referenceId = referenceId,
                       transaction_createdAt = env_now e,
                       transaction_createdBy = createdBy\<rparr>],
                   hcp_customers :=
                     update customer_id customerId
                       (\<lambda>item. item\<lparr>customer_balance := customer_balance customer + (debit - credit),
                                     customer_updatedAt := Some (env_now e)\<rparr>)
                       (hcp_customers s)\<rparr>)"
  using assms
  by (simp add: createTransaction_def Let_def transactionsService_create_def
        updateCustomerBalance_def customersService_update_def customersService_getById_def)

lemma paymentsService_create_fields:
  "hcp_transactions (paymentsService_create e data s) = hcp_transactions s"
  "hcp_customers (paymentsService_create e data s) = hcp_customers s"
  "hcp_invoices (paymentsService_create e data s) = hcp_invoices s"
  "hcp_products (paymentsService_create e data s) = hcp_products s"
  "hcp_payments (paymentsService_create e data s) = hcp_payments s @
     [data\<lparr>payment_id := env_newId e ''payments'', payment_createdAt := env_now e\<rparr>]"
  by (simp_all add: paymentsService_create_def)

section \<open>Facts about double rounding\<close>

text \<open>
  The values of \<open>round_double\<close> are the doubles, and a double rounds to itself; so rounding
  is idempotent, the doubles are closed under negation, and adding or subtracting 0 is
  exact.
\<close>

lemma roundHalfEven_of_int [simp]: "roundHalfEven (of_int n) = n"
  by (simp add: roundHalfEven_def)

lemma roundHalfEven_bounds: "\<lfloor>x\<rfloor> \<le> roundHalfEven x \<and> roundHalfEven x \<le> \<lceil>x\<rceil>"
  unfolding roundHalfEven_def by (auto simp add: ceiling_altdef)

lemma bitlen_pos: "0 < n \<Longrightarrow> 1 \<le> bitlen n"
proof -
  assume "0 < n"
  then have "bitlen n \<noteq> 0" by (simp add: bitlen_eq_zero_iff)
  with bitlen_nonneg [of n] show ?thesis by linarith
qed

lemma powi_less_exp:
  assumes "(2::rat) powi a < 2 powi b"
  shows "a < b"
proof (rule ccontr)
  assume "\<not> a < b"
  then have "b \<le> a" by simp
  then have "(2::rat) powi b \<le> 2 powi a" by (rule power_int_increasing) simp
  with assms show False by simp
qed

lemma ilog2_bounds:
  assumes "0 < y"
  shows "2 powi ilog2 y \<le> y \<and> y < 2 powi (ilog2 y + 1)"
proof (cases "1 \<le> y")
  case True
  let ?n = "\<lfloor>y\<rfloor>"
  from True have n: "0 < ?n" by simp
  from bitlen_bounds [OF n] have b: "2 ^ nat (bitlen ?n - 1) \<le> ?n" "?n < 2 ^ nat (bitlen ?n)"
    by simp_all
  note b1 = bitlen_pos [OF n]
  have lo: "(2::rat) powi (bitlen ?n - 1) \<le> y"
  proof -
    have "(2::rat) powi (bitlen ?n - 1) = of_int (2 ^ nat (bitlen ?n - 1))"
      using b1 by (simp add: power_int_def)
    also have "\<dots> \<le> of_int ?n" using b(1) by (simp only: of_int_le_iff)
    also have "\<dots> \<le> y" by (rule of_int_floor_le)
    finally show ?thesis .
  qed
  have hi: "y < (2::rat) powi (bitlen ?n)"
  proof -
    from b(2) have "?n + 1 \<le> 2 ^ nat (bitlen ?n)" by simp
    then have "of_int (?n + 1) \<le> (of_int (2 ^ nat (bitlen ?n)) :: rat)"
      by (simp only: of_int_le_iff)
    moreover have "y < of_int (?n + 1)" by linarith
    ultimately have "y < of_int (2 ^ nat (bitlen ?n))" by linarith
    then show ?thesis using b1 by (simp add: power_int_def)
  qed
  from True lo hi show ?thesis by (simp add: ilog2_def)
next
  case False
  let ?z = "1 / y"
  let ?m = "\<lceil>?z\<rceil> - 1"
  from False assms have z: "1 < ?z" by simp
  then have m: "0 < ?m" by (simp add: less_ceiling_iff)
  from bitlen_bounds [OF m] have b: "2 ^ nat (bitlen ?m - 1) \<le> ?m" "?m < 2 ^ nat (bitlen ?m)"
    by simp_all
  note b1 = bitlen_pos [OF m]
  have mz: "of_int ?m < ?z" "?z \<le> of_int ?m + 1"
    using ceiling_correct [of ?z] by simp_all
  have hi: "?z \<le> 2 ^ nat (bitlen ?m)"
  proof -
    from b(2) have "?m + 1 \<le> 2 ^ nat (bitlen ?m)" by simp
    then have "of_int (?m + 1) \<le> (of_int (2 ^ nat (bitlen ?m)) :: rat)"
      by (simp only: of_int_le_iff)
    then have "of_int ?m + 1 \<le> (2 ^ nat (bitlen ?m) :: rat)" by simp
    with mz(2) show ?thesis by linarith
  qed
  have lo: "(2::rat) ^ nat (bitlen ?m - 1) < ?z"
  proof -
    from b(1) have "(of_int (2 ^ nat (bitlen ?m - 1)) :: rat) \<le> of_int ?m"
      by (simp only: of_int_le_iff)
    then have "(2 ^ nat (bitlen ?m - 1) :: rat) \<le> of_int ?m" by simp
    with mz(1) show ?thesis by linarith
  qed
  have p1: "(2::rat) powi (- bitlen ?m) = 1 / 2 ^ nat (bitlen ?m)"
    using b1 by (simp add: power_int_def field_simps)
  have p2: "(2::rat) powi (1 - bitlen ?m) = 1 / 2 ^ nat (bitlen ?m - 1)"
  proof (cases "bitlen ?m = 1")
    case True
    then show ?thesis by simp
  next
    case False
    with b1 have "1 - bitlen ?m < 0" by simp
    then show ?thesis
      by (simp add: power_int_def field_simps nat_diff_distrib)
  qed
  have "1 / 2 ^ nat (bitlen ?m) \<le> y"
  proof -
    have "0 < (2::rat) ^ nat (bitlen ?m)" by simp
    from hi assms this show ?thesis by (simp add: field_simps)
  qed
  moreover have "y < 1 / 2 ^ nat (bitlen ?m - 1)"
  proof -
    have "0 < (2::rat) ^ nat (bitlen ?m - 1)" by simp
    from lo assms this show ?thesis by (simp add: field_simps)
  qed
  ultimately show ?thesis
    using False by (simp add: ilog2_def p1 p2)
qed

lemma ilog2_unique:
  assumes "0 < y" "2 powi j \<le> y" "y < 2 powi (j + 1)"
  shows "ilog2 y = j"
proof -
  from ilog2_bounds [OF assms(1)] have b: "2 powi ilog2 y \<le> y" "y < 2 powi (ilog2 y + 1)"
    by simp_all
  have "(2::rat) powi j < 2 powi (ilog2 y + 1)" using assms(2) b(2) by linarith
  then have "j < ilog2 y + 1" by (rule powi_less_exp)
  moreover have "(2::rat) powi ilog2 y < 2 powi (j + 1)" using assms(3) b(1) by linarith
  then have "ilog2 y < j + 1" by (rule powi_less_exp)
  ultimately show ?thesis by simp
qed

lemma powi_le_exp:
  assumes "(2::rat) powi a \<le> 2 powi b"
  shows "a \<le> b"
proof (rule ccontr)
  assume "\<not> a \<le> b"
  then have "b < a" by simp
  then have "(2::rat) powi b < 2 powi a" by (rule power_int_strict_increasing) simp
  with assms show False by simp
qed

lemma powi_split: "(2::rat) powi (a + b) = 2 powi a * 2 powi b"
  by (rule power_int_add) simp

lemma powi_nonneg_of_int: "0 \<le> d \<Longrightarrow> (2::rat) powi d = of_int (2 ^ nat d)"
  by (simp add: power_int_def)

lemma round_double_representable:
  "\<exists>n e. round_double x = of_int n * 2 powi e \<and> \<bar>n\<bar> \<le> 2 ^ 53 \<and> - 1074 \<le> e"
proof (cases "x = 0")
  case True
  then have "round_double x = of_int 0 * 2 powi 0 \<and> \<bar>0::int\<bar> \<le> 2 ^ 53 \<and> - 1074 \<le> (0::int)"
    by (simp add: round_double_def)
  then show ?thesis by blast
next
  case False
  let ?k = "ilog2 \<bar>x\<bar>"
  let ?e = "max (?k - 52) (- 1074)"
  let ?q = "x / 2 powi ?e"
  let ?n = "roundHalfEven ?q"
  from False have pos: "0 < \<bar>x\<bar>" by simp
  from ilog2_bounds [OF pos] have up: "\<bar>x\<bar> < 2 powi (?k + 1)" by simp
  have "?k + 1 \<le> ?e + 53" by simp
  then have "(2::rat) powi (?k + 1) \<le> 2 powi (?e + 53)" by (rule power_int_increasing) simp
  with up have "\<bar>x\<bar> < 2 powi (?e + 53)" by linarith
  also have "\<dots> = 2 powi ?e * 2 ^ 53" by (simp add: powi_split)
  finally have "\<bar>x\<bar> / 2 powi ?e < 2 ^ 53"
    by (simp add: field_simps)
  moreover have p: "0 < (2::rat) powi ?e" by simp
  then have "\<bar>?q\<bar> = \<bar>x\<bar> / 2 powi ?e"
    by (simp only: abs_divide abs_of_pos [OF p])
  ultimately have "\<bar>?q\<bar> < 2 ^ 53" by (simp only:)
  then have q: "- (2 ^ 53) < ?q" "?q < 2 ^ 53" by (simp_all only: abs_less_iff) linarith
  have "- (2 ^ 53) \<le> \<lfloor>?q\<rfloor>"
  proof -
    have "of_int (- (2 ^ 53)) \<le> ?q" using q(1) by simp
    then show ?thesis by (simp only: le_floor_iff)
  qed
  moreover have "\<lceil>?q\<rceil> \<le> 2 ^ 53"
  proof -
    have "?q \<le> of_int (2 ^ 53)" using q(2) by simp
    then show ?thesis by (simp only: ceiling_le_iff)
  qed
  ultimately have "\<bar>?n\<bar> \<le> 2 ^ 53"
    using roundHalfEven_bounds [of ?q] by linarith
  moreover have "round_double x = of_int ?n * 2 powi ?e"
    using False by (simp add: round_double_def)
  moreover have "- 1074 \<le> ?e" by simp
  ultimately show ?thesis by blast
qed

lemma round_double_fixed:
  assumes n: "\<bar>n\<bar> \<le> 2 ^ 53" and e: "- 1074 \<le> e"
  shows "round_double (of_int n * 2 powi e) = of_int n * 2 powi e"
proof (cases "n = 0")
  case True
  then show ?thesis by (simp add: round_double_def)
next
  case False
  let ?y = "of_int n * (2::rat) powi e"
  let ?k = "ilog2 \<bar>?y\<bar>"
  let ?e' = "max (?k - 52) (- 1074)"
  have abs_y: "\<bar>?y\<bar> = of_int \<bar>n\<bar> * 2 powi e"
    by (simp add: abs_mult)
  from False have y0: "?y \<noteq> 0" by simp
  then have pos: "0 < \<bar>?y\<bar>" by simp
  from ilog2_bounds [OF pos] have lo: "2 powi ?k \<le> \<bar>?y\<bar>" by simp
  have "of_int \<bar>n\<bar> \<le> (of_int (2 ^ 53) :: rat)" using n by (simp only: of_int_le_iff)
  then have n53: "of_int \<bar>n\<bar> \<le> (2 ^ 53 :: rat)" by simp
  have "\<bar>?y\<bar> \<le> 2 ^ 53 * 2 powi e"
    unfolding abs_y using n53 by (rule mult_right_mono) simp
  also have "\<dots> = 2 powi (e + 53)" by (simp add: powi_split)
  finally have top: "\<bar>?y\<bar> \<le> 2 powi (e + 53)" .
  with lo have "(2::rat) powi ?k \<le> 2 powi (e + 53)" by linarith
  then have k: "?k \<le> e + 53" by (rule powi_le_exp)
  have eval: "round_double ?y = of_int (roundHalfEven (?y / 2 powi ?e')) * 2 powi ?e'"
    using y0 by (simp add: round_double_def)
  show ?thesis
  proof (cases "?k \<le> e + 52")
    case True
    with e have le: "?e' \<le> e" by simp
    then have d: "0 \<le> e - ?e'" by simp
    have "(2::rat) powi e = 2 powi ((e - ?e') + ?e')" by simp
    also have "\<dots> = 2 powi (e - ?e') * 2 powi ?e'" by (rule powi_split)
    finally have split: "(2::rat) powi e = of_int (2 ^ nat (e - ?e')) * 2 powi ?e'"
      by (simp only: powi_nonneg_of_int [OF d])
    have "?y / 2 powi ?e' = of_int n * of_int (2 ^ nat (e - ?e'))"
      by (subst split) simp
    also have "\<dots> = of_int (n * 2 ^ nat (e - ?e'))" by simp
    finally have "roundHalfEven (?y / 2 powi ?e') = n * 2 ^ nat (e - ?e')"
      by (simp only: roundHalfEven_of_int)
    then have "round_double ?y = of_int (n * 2 ^ nat (e - ?e')) * 2 powi ?e'"
      by (simp only: eval)
    also have "\<dots> = of_int n * (of_int (2 ^ nat (e - ?e')) * 2 powi ?e')"
      by simp
    also have "\<dots> = ?y" by (simp only: split [symmetric])
    finally show ?thesis .
  next
    case False
    with k have keq: "?k = e + 53" by simp
    with e have e': "?e' = e + 1" by simp
    from lo keq have "(2::rat) powi (e + 53) \<le> \<bar>?y\<bar>" by simp
    then have "2 ^ 53 * (2::rat) powi e \<le> of_int \<bar>n\<bar> * 2 powi e"
      by (simp add: powi_split abs_y mult.commute)
    then have "(2 ^ 53 :: rat) \<le> of_int \<bar>n\<bar>"
      by (simp add: mult_le_cancel_right)
    then have "(of_int (2 ^ 53) :: rat) \<le> of_int \<bar>n\<bar>" by simp
    then have "2 ^ 53 \<le> \<bar>n\<bar>" by (simp only: of_int_le_iff)
    with n have nabs: "\<bar>n\<bar> = 2 ^ 53" by simp
    then have "n = 2 ^ 53 \<or> n = - (2 ^ 53)" by linarith
    then have "even n" by auto
    then have ev: "n = 2 * (n div 2)" by simp
    have "(2::rat) powi (e + 1) = 2 powi e * 2" by (simp add: powi_split)
    then have half: "?y / 2 powi (e + 1) = of_int n / 2" by simp
    have "(of_int n :: rat) = of_int (2 * (n div 2))" using ev by simp
    then have "(of_int n :: rat) / 2 = of_int (n div 2)" by simp
    with half have "roundHalfEven (?y / 2 powi (e + 1)) = n div 2"
      by (simp only: roundHalfEven_of_int)
    then have "round_double ?y = of_int (n div 2) * 2 powi (e + 1)"
      using eval e' by simp
    also have "\<dots> = of_int (2 * (n div 2)) * 2 powi e"
      by (simp add: powi_split)
    also have "\<dots> = ?y" using ev by simp
    finally show ?thesis .
  qed
qed

lemma round_double_idem: "round_double (round_double x) = round_double x"
proof -
  from round_double_representable [of x] obtain n e where
    "round_double x = of_int n * 2 powi e" "\<bar>n\<bar> \<le> 2 ^ 53" "- 1074 \<le> e" by blast
  then show ?thesis by (simp add: round_double_fixed)
qed

lemma isDouble_round [simp]: "isDouble (round_double x)"
  by (simp add: isDouble_def round_double_idem)

lemma isDouble_minus: "isDouble x \<Longrightarrow> isDouble (- x)"
proof -
  assume "isDouble x"
  then have x: "round_double x = x" by (simp add: isDouble_def)
  from round_double_representable [of x] obtain n e where
    r: "round_double x = of_int n * 2 powi e" "\<bar>n\<bar> \<le> 2 ^ 53" "- 1074 \<le> e" by blast
  from r(1) x have "- x = of_int (- n) * 2 powi e" by simp
  moreover have "\<bar>- n\<bar> \<le> 2 ^ 53" using r(2) by simp
  ultimately show ?thesis
    using round_double_fixed [of "- n" e] r(3) by (simp add: isDouble_def)
qed

lemma isDouble_of_int: "\<bar>n\<bar> \<le> 2 ^ 53 \<Longrightarrow> isDouble (of_int n)"
  using round_double_fixed [of n 0] by (simp add: isDouble_def)

lemma isDouble_0 [simp]: "isDouble 0"
  by (simp add: isDouble_def round_double_def)

lemma round_double_eval:
  assumes "x \<noteq> 0" "2 powi k \<le> \<bar>x\<bar>" "\<bar>x\<bar> < 2 powi (k + 1)"
  shows "round_double x = of_int (roundHalfEven (x / 2 powi max (k - 52) (- 1074)))
                            * 2 powi max (k - 52) (- 1074)"
proof -
  from assms(1) have "0 < \<bar>x\<bar>" by simp
  from ilog2_unique [OF this assms(2,3)] assms(1) show ?thesis
    by (simp add: round_double_def)
qed

lemma floor_rat_numeral:
  "\<lfloor>numeral a / numeral b :: rat\<rfloor> = numeral a div numeral b"
  by (metis floor_divide_of_int_eq of_int_numeral)

lemma add_double_0_right: "isDouble a \<Longrightarrow> add_double a 0 = a"
  by (simp add: add_double_def isDouble_def)

lemma sub_double_0_right: "isDouble a \<Longrightarrow> sub_double a 0 = a"
  by (simp add: sub_double_def isDouble_def)

lemma sub_double_0_left: "isDouble a \<Longrightarrow> sub_double 0 a = - a"
  using isDouble_minus [of a] by (simp add: sub_double_def isDouble_def)

lemma one_sided_agree:
  assumes "isDouble C" "isDouble debit" "isDouble credit" "debit = 0 \<or> credit = 0"
  shows "sub_double (add_double C debit) credit = round_double (C + debit - credit)"
    and "add_double C (sub_double debit credit) = round_double (C + debit - credit)"
proof -
  from assms(4) show "sub_double (add_double C debit) credit = round_double (C + debit - credit)"
  proof
    assume "debit = 0"
    with assms(1) show ?thesis by (simp add: add_double_0_right sub_double_def)
  next
    assume "credit = 0"
    then show ?thesis by (simp add: sub_double_0_right add_double_def)
  qed
  from assms(4) show "add_double C (sub_double debit credit) = round_double (C + debit - credit)"
  proof
    assume "debit = 0"
    with assms(3) show ?thesis by (simp add: sub_double_0_left add_double_def)
  next
    assume "credit = 0"
    with assms(2) show ?thesis by (simp add: sub_double_0_right add_double_def)
  qed
qed

text \<open>
  The recorder in double arithmetic, for an existing customer: the appended record and the
  updated row.
\<close>

lemma createTransaction_double_existing:
  assumes "customersService_getById s customerId = Some customer"
  shows "createTransaction_double e customerId type description debit credit referenceId createdBy s =
           Inr (s\<lparr>hcp_transactions := hcp_transactions s @
                     [\<lparr>transaction_id = env_newId e ''transactions'',
                       transaction_customerId = customerId,
                       transaction_type = type,
                       transaction_description = description,
                       transaction_debit = debit,
                       transaction_credit = credit,
                       transaction_balance =
                         sub_double (add_double (customer_balance customer) debit) credit,
                       transaction_date = env_now e,
                       transaction_referenceId = referenceId,
                       transaction_createdAt = env_now e,
                       transaction_createdBy = createdBy\<rparr>],
                   hcp_customers :=
                     update customer_id customerId
                       (\<lambda>item. item\<lparr>customer_balance :=
                                       add_double (customer_balance customer)
                                         (sub_double debit credit),
                                     customer_updatedAt := Some (env_now e)\<rparr>)
                       (hcp_customers s)\<rparr>)"
  using assms
  by (simp add: createTransaction_double_def Let_def transactionsService_create_def
        updateCustomerBalance_double_def customersService_update_def customersService_getById_def)

text \<open>The doubles \<^verbatim>\<open>100.1\<close>, \<^verbatim>\<open>50.2\<close> and \<^verbatim>\<open>25.3\<close>, and the two ways of combining them.\<close>

lemma lit_100_1: "round_double (1001 / 10) = 7043911292184166 / 2 ^ 46"
  by (subst round_double_eval [where k = 6]) (simp_all add: roundHalfEven_def floor_rat_numeral)

lemma lit_50_2: "round_double (251 / 5) = 7065021915437466 / 2 ^ 47"
  by (subst round_double_eval [where k = 5]) (simp_all add: roundHalfEven_def floor_rat_numeral)

lemma lit_25_3: "round_double (253 / 10) = 7121316910779597 / 2 ^ 48"
  by (subst round_double_eval [where k = 4]) (simp_all add: roundHalfEven_def floor_rat_numeral)

lemma snapshot_side:
  "sub_double (add_double (round_double (1001 / 10)) (round_double (251 / 5)))
     (round_double (253 / 10)) = 125 + 1 / 2 ^ 46"
proof -
  have "round_double (round_double (1001 / 10) + round_double (251 / 5))
          = 5288211124951450 / 2 ^ 45"
    unfolding lit_100_1 lit_50_2
    by (subst round_double_eval [where k = 7])
       (simp_all add: roundHalfEven_def floor_rat_numeral)
  then show ?thesis
    unfolding lit_25_3 add_double_def sub_double_def
    by (simp only:)
       (subst round_double_eval [where k = 6], simp_all add: roundHalfEven_def floor_rat_numeral)
qed

lemma stored_side:
  "add_double (round_double (1001 / 10))
     (sub_double (round_double (251 / 5)) (round_double (253 / 10))) = 125"
proof -
  have "round_double (round_double (251 / 5) - round_double (253 / 10))
          = 7008726920095335 / 2 ^ 48"
    unfolding lit_50_2 lit_25_3
    by (subst round_double_eval [where k = 4])
       (simp_all add: roundHalfEven_def floor_rat_numeral)
  then show ?thesis
    unfolding lit_100_1 add_double_def sub_double_def
    by (simp only:)
       (subst round_double_eval [where k = 6], simp_all add: roundHalfEven_def floor_rat_numeral)
qed

lemma isDouble_125_5: "isDouble (251 / 2)"
  using round_double_fixed [of 251 "- 1"] by (simp add: isDouble_def)

section \<open>The transaction recorder: claims C3, C4, C5\<close>

text \<open>
  Claim C5, as the code has it. \<^verbatim>\<open>createTransaction\<close> computes the record's balance as
  \<^verbatim>\<open>(C + debit) - credit\<close> and the stored balance as \<^verbatim>\<open>C + (debit - credit)\<close>, each
  operation rounded to a double. After a completed call for an existing customer with
  balance C in which debit or credit is 0, as in every call the application makes, one
  record has been appended, it carries \<open>C + debit - credit\<close> rounded once, and the
  customer's stored balance equals the balance field of that most recently appended
  transaction. With both non-zero the two can differ: for C = 100.1, debit = 50.2 and
  credit = 25.3 the record carries 125.00000000000001 and the stored balance is 125.
\<close>

theorem createTransaction_snapshot_in_doubles:
  assumes stored: "customersService_getById s customerId = Some customer"
      and doubles: "isDouble (customer_balance customer)" "isDouble debit" "isDouble credit"
      and one_sided: "debit = 0 \<or> credit = 0"
  shows "\<exists>s' t customer'.
           createTransaction_double e customerId type description debit credit referenceId
             createdBy s = Inr s'
         \<and> hcp_transactions s' = hcp_transactions s @ [t]
         \<and> transaction_balance t = round_double (customer_balance customer + debit - credit)
         \<and> customersService_getById s' customerId = Some customer'
         \<and> customer_balance customer' = transaction_balance (last (hcp_transactions s'))"
  using stored [unfolded customersService_getById_def]
  by (simp add: createTransaction_double_existing [OF stored] customersService_getById_def
        getById_update_same one_sided_agree [OF doubles one_sided])

theorem createTransaction_snapshot_in_doubles_witness:
  "customersService_getById demoStorage ''cust-003'' = Some (demoCustomers ! 2)
   \<and> customer_balance (demoCustomers ! 2) = 251 / 2
   \<and> isDouble (251 / 2) \<and> isDouble 0 \<and> isDouble (round_double (253 / 10))
   \<and> (\<exists>s' t customer'.
         createTransaction_double demoEnv ''cust-003'' tx_payment ''Payment - Cash'' 0
           (round_double (253 / 10)) ''payments-1718956800000-k3j9x2m1q'' ''Admin User''
           demoStorage = Inr s'
       \<and> hcp_transactions s' = [t]
       \<and> transaction_balance t = 7050948166601933 / 2 ^ 46
       \<and> customersService_getById s' ''cust-003'' = Some customer'
       \<and> customer_balance customer' = 7050948166601933 / 2 ^ 46)"
proof -
  have look: "customersService_getById demoStorage ''cust-003'' = Some (demoCustomers ! 2)"
    by (simp add: customersService_getById_def getById_def demoStorage_def demoCustomers_def)
  have bal: "customer_balance (demoCustomers ! 2) = 251 / 2"
    by (simp add: demoCustomers_def)
  have d1: "isDouble (customer_balance (demoCustomers ! 2))"
    unfolding bal by (rule isDouble_125_5)
  have d2: "isDouble 0" "isDouble (round_double (253 / 10))" by simp_all
  have one: "(0::rat) = 0 \<or> round_double (253 / 10) = 0" by simp
  have val: "round_double (251 / 2 + 0 - round_double (253 / 10)) = 7050948166601933 / 2 ^ 46"
    unfolding lit_25_3
    by (subst round_double_eval [where k = 6])
       (simp_all add: roundHalfEven_def floor_rat_numeral)
  from createTransaction_snapshot_in_doubles [OF look d1 d2 one, of demoEnv tx_payment
      "''Payment - Cash''" "''payments-1718956800000-k3j9x2m1q''" "''Admin User''"]
  obtain s' t customer' where h:
    "createTransaction_double demoEnv ''cust-003'' tx_payment ''Payment - Cash'' 0
       (round_double (253 / 10)) ''payments-1718956800000-k3j9x2m1q'' ''Admin User''
       demoStorage = Inr s'"
    "hcp_transactions s' = hcp_transactions demoStorage @ [t]"
    "transaction_balance t
       = round_double (customer_balance (demoCustomers ! 2) + 0 - round_double (253 / 10))"
    "customersService_getById s' ''cust-003'' = Some customer'"
    "customer_balance customer' = transaction_balance (last (hcp_transactions s'))"
    by blast
  have t1: "hcp_transactions s' = [t]" using h(2) by (simp add: demoStorage_def)
  have t2: "transaction_balance t = 7050948166601933 / 2 ^ 46"
    using h(3) unfolding bal val .
  have t3: "customer_balance customer' = 7050948166601933 / 2 ^ 46"
    using h(5) unfolding t1 using t2 by simp
  from h(1) t1 t2 h(4) t3 have
    "\<exists>s' t customer'.
         createTransaction_double demoEnv ''cust-003'' tx_payment ''Payment - Cash'' 0
           (round_double (253 / 10)) ''payments-1718956800000-k3j9x2m1q'' ''Admin User''
           demoStorage = Inr s'
       \<and> hcp_transactions s' = [t]
       \<and> transaction_balance t = 7050948166601933 / 2 ^ 46
       \<and> customersService_getById s' ''cust-003'' = Some customer'
       \<and> customer_balance customer' = 7050948166601933 / 2 ^ 46"
    by blast
  with look bal isDouble_125_5 d2 show ?thesis by blast
qed

theorem createTransaction_snapshot_counterexample:
  "map transaction_balance
     (transactionsAfter
        (createTransaction_double demoEnv ''cust-001'' tx_invoice ''Invoice HCP20240621956800''
           (round_double (251 / 5)) (round_double (253 / 10)) ''HCP20240621956800''
           ''Admin User'' roundingStorage)) = [125 + 1 / 2 ^ 46]
   \<and> balanceAfter ''cust-001''
        (createTransaction_double demoEnv ''cust-001'' tx_invoice ''Invoice HCP20240621956800''
           (round_double (251 / 5)) (round_double (253 / 10)) ''HCP20240621956800''
           ''Admin User'' roundingStorage) = Some 125"
proof -
  have look: "customersService_getById roundingStorage ''cust-001''
                = Some (exampleCustomer\<lparr>customer_balance := round_double (1001 / 10)\<rparr>)"
    by (simp add: customersService_getById_def getById_def roundingStorage_def
          exampleCustomer_def demoCustomers_def)
  note run = createTransaction_double_existing [OF look, of demoEnv tx_invoice
      "''Invoice HCP20240621956800''" "round_double (251 / 5)" "round_double (253 / 10)"
      "''HCP20240621956800''" "''Admin User''"]
  show ?thesis
    unfolding run
    by (simp add: transactionsAfter_def balanceAfter_def snapshot_side stored_side
          customersService_getById_def roundingStorage_def exampleStorage_def
          exampleCustomer_def demoCustomers_def getById_def)
qed

text \<open>
  Claim C4, as the code has it. \<^verbatim>\<open>createTransaction\<close> with a \<^verbatim>\<open>customerId\<close> that resolves to no
  customer takes the guard \<^verbatim>\<open>if (!customer) return\<close>: the call resolves, no transaction is
  appended and no balance changes. It does not fail with \<open>NotFoundError\<close>.
\<close>

theorem createTransaction_unknown_customer_resolves:
  assumes "customersService_getById s customerId = None"
  shows "createTransaction e customerId type description debit credit referenceId createdBy s = Inr s"
  using assms by (simp add: createTransaction_def)

theorem createTransaction_unknown_customer_resolves_witness:
  "customersService_getById demoStorage ''cust-999'' = None \<and>
   createTransaction demoEnv ''cust-999'' tx_payment ''Payment - Cash'' 0 100 ''pay-002''
     ''Admin User'' demoStorage = Inr demoStorage"
proof -
  have look: "customersService_getById demoStorage ''cust-999'' = None"
    by (simp add: customersService_getById_def getById_def demoStorage_def demoCustomers_def)
  show ?thesis
    using look createTransaction_unknown_customer_resolves [OF look] by simp
qed

theorem createTransaction_NotFoundError_counterexample:
  "customersService_getById demoStorage ''cust-999'' = None \<and>
   createTransaction demoEnv ''cust-999'' tx_payment ''Payment - Cash'' 0 100 ''pay-002''
     ''Admin User'' demoStorage \<noteq> Inl NotFoundError"
  by (simp add: createTransaction_def customersService_getById_def getById_def demoStorage_def
        demoCustomers_def)

text \<open>
  Claim C3. For an existing customer with balance B, recording a payment of amount A through
  \<^verbatim>\<open>Accounting.handleCreatePayment\<close> (which calls \<^verbatim>\<open>createTransaction\<close> with debit 0 and credit
  A) leaves the customer with balance \<open>B - A\<close>; John Smith, with balance 250, ends with
  -35 after his payment of 285.
\<close>

theorem payment_yields_balance_minus_amount:
  assumes "customersService_getById s (payment_customerId paymentData) = Some customer"
  shows "map_option customer_balance
           (customersService_getById (handleCreatePayment e userProfile paymentData s)
              (payment_customerId paymentData))
         = Some (customer_balance customer - payment_amount paymentData)"
proof -
  let ?s1 = "paymentsService_create e paymentData s"
  have look: "customersService_getById ?s1 (payment_customerId paymentData) = Some customer"
    using assms by (simp add: customersService_getById_def paymentsService_create_def)
  show ?thesis
    using look [unfolded customersService_getById_def]
    by (simp add: handleCreatePayment_def Let_def createTransaction_existing [OF look]
          customersService_getById_def getById_update_same)
qed

theorem payment_yields_balance_minus_amount_witness:
  "customersService_getById demoStorage (payment_customerId (hd demoPayments)) = Some (hd demoCustomers)
   \<and> customer_balance (hd demoCustomers) = 250 \<and> payment_amount (hd demoPayments) = 285
   \<and> map_option customer_balance
        (customersService_getById
           (handleCreatePayment demoEnv (Some adminUser) (hd demoPayments) demoStorage) ''cust-001'')
      = Some (- 35)"
proof -
  have look: "customersService_getById demoStorage (payment_customerId (hd demoPayments))
                = Some (hd demoCustomers)"
    by (simp add: customersService_getById_def getById_def demoStorage_def demoCustomers_def
          demoPayments_def)
  show ?thesis
    using look payment_yields_balance_minus_amount [OF look, of demoEnv "Some adminUser"]
    by (simp add: demoCustomers_def demoPayments_def)
qed

section \<open>Recording a payment or a refund: claim C10\<close>

text \<open>
  Claim C10. For every payment recorded through the accounting flow (the payment form
  submitted to \<^verbatim>\<open>handleCreatePayment\<close>), whether the form's type is \<open>payment\<close> or \<open>refund\<close>, the
  ledger transaction created has type \<open>payment\<close>, debit 0 and credit equal to the amount;
  the stored payment keeps the form's type, and the customer's balance goes down by the
  amount, for a refund exactly as for a payment.
\<close>

theorem refund_recorded_as_payment:
  assumes valid: "validateForm formData"
      and listed: "find (\<lambda>c. customer_id c = paymentForm_customerId formData) customers = Some listed"
      and stored: "customersService_getById s (paymentForm_customerId formData) = Some customer"
  shows "\<exists>t p. hcp_transactions (Accounting_recordPayment e customers userProfile formData s)
                 = hcp_transactions s @ [t]
             \<and> transaction_type t = tx_payment
             \<and> transaction_debit t = 0
             \<and> transaction_credit t = paymentForm_amount formData
             \<and> hcp_payments (Accounting_recordPayment e customers userProfile formData s)
                 = hcp_payments s @ [p]
             \<and> payment_type p = paymentForm_type formData
             \<and> map_option customer_balance
                  (customersService_getById
                     (Accounting_recordPayment e customers userProfile formData s)
                     (paymentForm_customerId formData))
               = Some (customer_balance customer - paymentForm_amount formData)"
proof -
  let ?paymentData = "\<lparr>payment_id = '''',
                         payment_customerId = paymentForm_customerId formData,
                         payment_customerName = customer_fullName listed,
                         payment_orderId = orUndefined (paymentForm_orderId formData),
                         payment_orderNumber = orUndefined (paymentForm_orderNumber formData),
                         payment_amount = paymentForm_amount formData,
                         payment_method = paymentForm_method formData,
                         payment_date = paymentForm_date formData,
                         payment_notes = orUndefined (paymentForm_notes formData),
                         payment_type = paymentForm_type formData,
                         payment_createdAt = env_now e,
                         payment_createdBy = displayNameOrUnknown userProfile\<rparr>"
  let ?s1 = "paymentsService_create e ?paymentData s"
  have run: "Accounting_recordPayment e customers userProfile formData s
               = handleCreatePayment e userProfile ?paymentData s"
    using valid listed by (simp add: Accounting_recordPayment_def PaymentForm_handleSubmit_def)
  have look: "customersService_getById ?s1 (paymentForm_customerId formData) = Some customer"
    using stored by (simp add: customersService_getById_def paymentsService_create_def)
  show ?thesis
    unfolding run
    using look [unfolded customersService_getById_def]
    by (simp add: handleCreatePayment_def Let_def createTransaction_existing [OF look]
          customersService_getById_def getById_update_same paymentsService_create_fields)
qed

theorem refund_recorded_as_payment_witness:
  "validateForm refundForm
   \<and> find (\<lambda>c. customer_id c = paymentForm_customerId refundForm) demoCustomers
       = Some (hd demoCustomers)
   \<and> customersService_getById demoStorage (paymentForm_customerId refundForm)
       = Some (hd demoCustomers)
   \<and> paymentForm_type refundForm = pay_refund
   \<and> map (\<lambda>t. (transaction_type t, transaction_debit t, transaction_credit t))
        (hcp_transactions
           (Accounting_recordPayment demoEnv demoCustomers (Some adminUser) refundForm demoStorage))
       = [(tx_payment, 0, 100)]
   \<and> map_option customer_balance
        (customersService_getById
           (Accounting_recordPayment demoEnv demoCustomers (Some adminUser) refundForm demoStorage)
           ''cust-001'')
       = Some 150"
proof -
  have valid: "validateForm refundForm"
    by (simp add: validateForm_def refundForm_def)
  have listed: "find (\<lambda>c. customer_id c = paymentForm_customerId refundForm) demoCustomers
                  = Some (hd demoCustomers)"
    by (simp add: refundForm_def demoCustomers_def)
  have stored: "customersService_getById demoStorage (paymentForm_customerId refundForm)
                  = Some (hd demoCustomers)"
    by (simp add: customersService_getById_def getById_def demoStorage_def refundForm_def
          demoCustomers_def)
  from refund_recorded_as_payment [OF valid listed stored, of demoEnv "Some adminUser"]
  obtain t where h:
    "hcp_transactions (Accounting_recordPayment demoEnv demoCustomers (Some adminUser) refundForm
        demoStorage) = hcp_transactions demoStorage @ [t]"
    "transaction_type t = tx_payment" "transaction_debit t = 0"
    "transaction_credit t = paymentForm_amount refundForm"
    "map_option customer_balance
        (customersService_getById
           (Accounting_recordPayment demoEnv demoCustomers (Some adminUser) refundForm demoStorage)
           (paymentForm_customerId refundForm))
       = Some (customer_balance (hd demoCustomers) - paymentForm_amount refundForm)"
    by blast
  have "map (\<lambda>t. (transaction_type t, transaction_debit t, transaction_credit t))
        (hcp_transactions
           (Accounting_recordPayment demoEnv demoCustomers (Some adminUser) refundForm demoStorage))
       = [(tx_payment, 0, 100)]"
    using h(1-4) by (simp add: demoStorage_def refundForm_def)
  moreover have "map_option customer_balance
        (customersService_getById
           (Accounting_recordPayment demoEnv demoCustomers (Some adminUser) refundForm demoStorage)
           ''cust-001'') = Some 150"
    using h(5) by (simp add: refundForm_def demoCustomers_def)
  ultimately show ?thesis
    using valid listed stored by (simp add: refundForm_def)
qed

section \<open>Facts about the example inputs\<close>

lemma exampleItems_eq:
  "exampleItems = [\<lparr>item_productId = ''prod-001'', item_productName = ''Steel Beam 20ft'',
                     item_quantity = 2, item_unitPrice = 150, item_total = 300\<rparr>]"
  by (simp add: exampleItems_def updateItem_def addItem_def demoProducts_def)

lemma untouchedItems_eq:
  "untouchedItems = [\<lparr>item_productId = ''prod-001'', item_productName = ''Steel Beam 20ft'',
                       item_quantity = 1, item_unitPrice = 150, item_total = 0\<rparr>]"
  by (simp add: untouchedItems_def updateItem_def addItem_def demoProducts_def)

lemmas example_flow_defs =
  Sales_createInvoice_def InvoiceForm_handleSubmit_def calculations_def
  calculations_discountAmount_def calculations_total_def exampleForm_def exampleStorage_def
  exampleCustomer_def demoCustomers_def updateCustomerBalance_def createTransaction_def
  customersService_getById_def customersService_update_def getById_def
  transactionsService_create_def handleCreateInvoice_def invoicesService_create_def Let_def

section \<open>Creating an invoice: claims C1, C2, C6\<close>

text \<open>
  What the creation flow does to the balance of an existing customer, for any form that
  passes the checks: the signed total is added by \<^verbatim>\<open>updateCustomerBalance\<close> and then once more
  inside \<^verbatim>\<open>createTransaction\<close>.
\<close>

lemma createInvoice_balance:
  assumes filled: "form_customerId formData \<noteq> ''''" "items \<noteq> []"
      and listed: "find (\<lambda>c. customer_id c = form_customerId formData) customers = Some listed"
      and stored: "customersService_getById s (form_customerId formData) = Some customer"
  shows "balanceAfter (form_customerId formData)
           (Sales_createInvoice e customers userProfile formData items selectedCustomer s)
         = Some (customer_balance customer
                 + 2 * (if form_type formData = inv_sale
                        then calculations_total (calculations items selectedCustomer)
                        else - calculations_total (calculations items selectedCustomer)))"
proof -
  let ?T = "calculations_total (calculations items selectedCustomer)"
  let ?a = "if form_type formData = inv_sale then ?T else - ?T"
  let ?cid = "form_customerId formData"
  let ?s1 = "s\<lparr>hcp_customers :=
                    update customer_id ?cid
                      (\<lambda>item. item\<lparr>customer_balance := customer_balance customer + ?a,
                                    customer_updatedAt := Some (env_now e)\<rparr>)
                      (hcp_customers s)\<rparr>"
  have s1: "updateCustomerBalance e ?cid ?a s = Inr ?s1"
    by (rule updateCustomerBalance_existing [OF stored])
  have look1: "customersService_getById ?s1 ?cid =
      Some (customer\<lparr>customer_balance := customer_balance customer + ?a,
                      customer_updatedAt := Some (env_now e)\<rparr>)"
    using stored by (simp add: customersService_getById_def getById_update_same)
  have ty: "form_type formData = inv_sale \<or> form_type formData = inv_return"
    by (cases "form_type formData") simp_all
  show ?thesis
    using filled listed ty look1 [unfolded customersService_getById_def]
    by (auto simp add: Sales_createInvoice_def InvoiceForm_handleSubmit_def s1
        createTransaction_existing [OF look1] balanceAfter_def handleCreateInvoice_def
        invoicesService_create_def customersService_getById_def getById_update_same)
qed

text \<open>
  The replay is the sum of \<open>debit - credit\<close> over the customer's transactions, whatever
  their order. A recorded payment changes the replay and the stored balance alike; a
  created invoice changes the replay by the signed total once.
\<close>

lemma sum_list_insort_key:
  fixes g :: "'a \<Rightarrow> rat"
  shows "sum_list (map g (insort_key k x xs)) = g x + sum_list (map g xs)"
  by (induction xs) simp_all

lemma sum_list_sort_key:
  fixes g :: "'a \<Rightarrow> rat"
  shows "sum_list (map g (sort_key k xs)) = sum_list (map g xs)"
  by (induction xs) (simp_all add: sum_list_insort_key)

lemma replayBalance_sum:
  "replayBalance customerId allTransactions =
     sum_list (map (\<lambda>t. transaction_debit t - transaction_credit t)
                 (filter (\<lambda>t. transaction_customerId t = customerId) allTransactions))"
proof -
  have "foldl (\<lambda>acc t. acc + transaction_debit t - transaction_credit t) a ts
          = a + sum_list (map (\<lambda>t. transaction_debit t - transaction_credit t) ts)"
    for a and ts :: "Transaction list"
    by (induction ts arbitrary: a) simp_all
  then show ?thesis
    by (simp add: replayBalance_def customerTransactions_def sum_list_sort_key)
qed

lemma replayBalance_append:
  "replayBalance customerId (allTransactions @ [t]) =
     replayBalance customerId allTransactions
     + (if transaction_customerId t = customerId
        then transaction_debit t - transaction_credit t else 0)"
  by (simp add: replayBalance_sum)

lemma payment_preserves_replay_invariant:
  assumes stored: "customersService_getById s (payment_customerId paymentData) = Some customer"
      and inv: "replayBalance (payment_customerId paymentData) (hcp_transactions s)
                  = customer_balance customer"
  shows "map_option customer_balance
           (customersService_getById (handleCreatePayment e userProfile paymentData s)
              (payment_customerId paymentData))
         = Some (replayBalance (payment_customerId paymentData)
                   (hcp_transactions (handleCreatePayment e userProfile paymentData s)))"
proof -
  let ?s1 = "paymentsService_create e paymentData s"
  have look: "customersService_getById ?s1 (payment_customerId paymentData) = Some customer"
    using stored by (simp add: customersService_getById_def paymentsService_create_fields)
  show ?thesis
    using look [unfolded customersService_getById_def] inv
    by (simp add: handleCreatePayment_def Let_def createTransaction_existing [OF look]
          customersService_getById_def getById_update_same paymentsService_create_fields
          replayBalance_append)
qed

lemma createInvoice_replay:
  assumes filled: "form_customerId formData \<noteq> ''''" "items \<noteq> []"
      and listed: "find (\<lambda>c. customer_id c = form_customerId formData) customers = Some listed"
      and stored: "customersService_getById s (form_customerId formData) = Some customer"
  shows "replayAfter (form_customerId formData)
           (Sales_createInvoice e customers userProfile formData items selectedCustomer s)
         = Some (replayBalance (form_customerId formData) (hcp_transactions s)
                 + (if form_type formData = inv_sale
                    then calculations_total (calculations items selectedCustomer)
                    else - calculations_total (calculations items selectedCustomer)))"
proof -
  let ?T = "calculations_total (calculations items selectedCustomer)"
  let ?a = "if form_type formData = inv_sale then ?T else - ?T"
  let ?cid = "form_customerId formData"
  let ?s1 = "s\<lparr>hcp_customers :=
                    update customer_id ?cid
                      (\<lambda>item. item\<lparr>customer_balance := customer_balance customer + ?a,
                                    customer_updatedAt := Some (env_now e)\<rparr>)
                      (hcp_customers s)\<rparr>"
  have s1: "updateCustomerBalance e ?cid ?a s = Inr ?s1"
    by (rule updateCustomerBalance_existing [OF stored])
  have look1: "customersService_getById ?s1 ?cid =
      Some (customer\<lparr>customer_balance := customer_balance customer + ?a,
                      customer_updatedAt := Some (env_now e)\<rparr>)"
    using stored by (simp add: customersService_getById_def getById_update_same)
  have ty: "form_type formData = inv_sale \<or> form_type formData = inv_return"
    by (cases "form_type formData") simp_all
  show ?thesis
    using filled listed ty
    by (auto simp add: Sales_createInvoice_def InvoiceForm_handleSubmit_def s1
        createTransaction_existing [OF look1] replayAfter_def handleCreateInvoice_def
        invoicesService_create_def replayBalance_append)
qed

text \<open>
  Claim C1 says that creating a sale invoice of total T for a customer with balance B
  leaves balance \<open>B + T\<close>, 285 for balance 0 and total 285. On the example store (balance
  0; two steel beams at 150, discount 5 percent, total 285) the flow leaves 570.
\<close>

theorem sale_invoice_adds_total_twice:
  "customer_balance exampleCustomer = 0
   \<and> form_type exampleForm = inv_sale
   \<and> calculations_total (calculations exampleItems (Some exampleCustomer)) = 285
   \<and> balanceAfter ''cust-001''
         (Sales_createInvoice demoEnv [exampleCustomer] (Some adminUser) exampleForm exampleItems
            (Some exampleCustomer) exampleStorage) = Some 570"
  by (simp add: balanceAfter_def exampleItems_eq example_flow_defs)

text \<open>
  Claim C2 says that replaying a customer's transactions, accumulating \<open>debit - credit\<close>,
  always equals the stored balance. On the example store, where both are 0 before, one
  created sale invoice leaves a replay of 285 and a stored balance of 570.
\<close>

theorem replay_differs_from_balance_after_invoice:
  "replayBalance ''cust-001'' (hcp_transactions exampleStorage) = 0
   \<and> balanceAfter ''cust-001'' (Inr exampleStorage) = Some 0
   \<and> replayAfter ''cust-001''
         (Sales_createInvoice demoEnv [exampleCustomer] (Some adminUser) exampleForm exampleItems
            (Some exampleCustomer) exampleStorage) = Some 285
   \<and> balanceAfter ''cust-001''
         (Sales_createInvoice demoEnv [exampleCustomer] (Some adminUser) exampleForm exampleItems
            (Some exampleCustomer) exampleStorage) = Some 570"
  by (simp add: replayAfter_def balanceAfter_def replayBalance_def customerTransactions_def
        exampleItems_eq example_flow_defs)

text \<open>
  The getters of \<^verbatim>\<open>calculations\<close> do compute the discount and the total from the subtotal,
  and the subtotal is the sum of the stored line totals; editing a line's quantity or
  unit price sets its total to their product.
\<close>

lemma calculations_formulas:
  "calculations_subtotal (calculations items selectedCustomer) = sum_list (map item_total items)
   \<and> calculations_discountAmount (calculations items selectedCustomer)
       = calculations_subtotal (calculations items selectedCustomer)
         * calculations_discountRate (calculations items selectedCustomer) / 100
   \<and> calculations_total (calculations items selectedCustomer)
       = calculations_subtotal (calculations items selectedCustomer)
         - calculations_discountAmount (calculations items selectedCustomer)"
proof -
  have "foldl (\<lambda>sum item. sum + item_total item) a items = a + sum_list (map item_total items)"
    for a
    by (induction items arbitrary: a) simp_all
  then show ?thesis
    by (simp add: calculations_def calculations_discountAmount_def calculations_total_def)
qed

lemma recomputeTotal_on_quantity_or_price:
  "item_total (recomputeTotal (field_quantity q) updatedItem)
     = item_quantity updatedItem * item_unitPrice updatedItem
   \<and> item_total (recomputeTotal (field_unitPrice p) updatedItem)
     = item_quantity updatedItem * item_unitPrice updatedItem
   \<and> item_total (recomputeTotal (field_productId value) updatedItem) = item_total updatedItem"
  by simp

lemma example_invoice_as_specified:
  "map (\<lambda>i. (invoice_subtotal i, invoice_discountRate i, invoice_discountAmount i,
              invoice_total i))
     (invoicesAfter
        (Sales_createInvoice demoEnv [exampleCustomer] (Some adminUser) exampleForm exampleItems
           (Some exampleCustomer) exampleStorage))
   = [(300, 5, 15, 285)]"
  by (simp add: invoicesAfter_def invoiceData_def exampleItems_eq example_flow_defs)

text \<open>
  Claim C6 says that on every created invoice each item total is quantity times unit price,
  the subtotal their sum, the discount \<open>subtotal * rate / 100\<close> and the total the
  difference. Choosing the product of a new line sets its unit price and leaves its total
  at 0: the invoice created from one line with quantity 1 and unit price 150 has line total
  0, subtotal 0 and total 0.
\<close>

theorem line_total_stale_after_product_choice:
  "untouchedItems = updateItem demoProducts 0 (field_productId ''prod-001'') (addItem [])
   \<and> map (\<lambda>i. (invoice_items i, invoice_subtotal i, invoice_discountRate i,
                invoice_discountAmount i, invoice_total i))
       (invoicesAfter
          (Sales_createInvoice demoEnv [exampleCustomer] (Some adminUser) exampleForm
             untouchedItems (Some exampleCustomer) exampleStorage))
     = [([\<lparr>item_productId = ''prod-001'', item_productName = ''Steel Beam 20ft'',
            item_quantity = 1, item_unitPrice = 150, item_total = 0\<rparr>], 0, 5, 0, 0)]"
  by (simp add: untouchedItems_def [symmetric] invoicesAfter_def invoiceData_def
        untouchedItems_eq example_flow_defs)

section \<open>Editing an invoice: claim C9\<close>

text \<open>
  Claim C9. Submitting the form for an existing invoice (\<^verbatim>\<open>initialData\<close> present) creates no
  transaction and leaves every customer, product, payment and transaction as it was. The
  invoices are unchanged too, except for at most one row, the one with the edited invoice's
  id, which keeps its id and carries the \<^verbatim>\<open>updatedBy\<close> stamp.
\<close>

theorem edit_changes_only_the_invoice_row:
  "\<exists>s'. Sales_editInvoice e customers userProfile editingInvoice formData items selectedCustomer s
           = Inr s'
       \<and> hcp_transactions s' = hcp_transactions s
       \<and> hcp_customers s' = hcp_customers s
       \<and> hcp_products s' = hcp_products s
       \<and> hcp_payments s' = hcp_payments s
       \<and> (hcp_invoices s' = hcp_invoices s
          \<or> (\<exists>i row. i < length (hcp_invoices s)
                \<and> invoice_id (hcp_invoices s ! i) = invoice_id editingInvoice
                \<and> hcp_invoices s' = (hcp_invoices s)[i := row]
                \<and> invoice_id row = invoice_id editingInvoice
                \<and> invoice_updatedBy row = Some (displayNameOrUnknown userProfile)))"
proof -
  let ?data = "\<lambda>d item. (d\<lparr>invoice_id := invoice_id item,
                     invoice_updatedBy := Some (displayNameOrUnknown userProfile)\<rparr>)
                  \<lparr>invoice_updatedAt := Some (env_now e)\<rparr>"
  have row: "\<And>d. update invoice_id (invoice_id editingInvoice) (?data d) (hcp_invoices s) = hcp_invoices s
      \<or> (\<exists>i row. i < length (hcp_invoices s)
                \<and> invoice_id (hcp_invoices s ! i) = invoice_id editingInvoice
                \<and> update invoice_id (invoice_id editingInvoice) (?data d) (hcp_invoices s)
                     = (hcp_invoices s)[i := row]
                \<and> invoice_id row = invoice_id editingInvoice
                \<and> invoice_updatedBy row = Some (displayNameOrUnknown userProfile))"
  proof -
    fix d
    from update_cases [of invoice_id "invoice_id editingInvoice" "?data d" "hcp_invoices s"]
    show "update invoice_id (invoice_id editingInvoice) (?data d) (hcp_invoices s) = hcp_invoices s
      \<or> (\<exists>i row. i < length (hcp_invoices s)
                \<and> invoice_id (hcp_invoices s ! i) = invoice_id editingInvoice
                \<and> update invoice_id (invoice_id editingInvoice) (?data d) (hcp_invoices s)
                     = (hcp_invoices s)[i := row]
                \<and> invoice_id row = invoice_id editingInvoice
                \<and> invoice_updatedBy row = Some (displayNameOrUnknown userProfile))"
    proof
      assume "update invoice_id (invoice_id editingInvoice) (?data d) (hcp_invoices s) = hcp_invoices s"
      then show ?thesis by simp
    next
      assume "\<exists>i<length (hcp_invoices s).
       invoice_id (hcp_invoices s ! i) = invoice_id editingInvoice \<and>
       update invoice_id (invoice_id editingInvoice) (?data d) (hcp_invoices s) =
       (hcp_invoices s)[i := ?data d (hcp_invoices s ! i)]"
      then obtain i where i: "i < length (hcp_invoices s)"
        "invoice_id (hcp_invoices s ! i) = invoice_id editingInvoice"
        "update invoice_id (invoice_id editingInvoice) (?data d) (hcp_invoices s) =
           (hcp_invoices s)[i := ?data d (hcp_invoices s ! i)]" by blast
      have "invoice_id (?data d (hcp_invoices s ! i)) = invoice_id editingInvoice
          \<and> invoice_updatedBy (?data d (hcp_invoices s ! i)) = Some (displayNameOrUnknown userProfile)"
        using i(2) by simp
      with i show ?thesis by blast
    qed
  qed
  show ?thesis
    using row
    by (simp add: Sales_editInvoice_def InvoiceForm_handleSubmit_def handleEditInvoice_def
          invoicesService_update_def split: option.split)
qed

theorem edit_changes_only_the_invoice_row_witness:
  "\<exists>s'. Sales_editInvoice demoEnv demoCustomers (Some adminUser) (hd demoInvoices) editForm
            editItems (Some (hd demoCustomers)) demoStorage = Inr s'
       \<and> hcp_transactions s' = [] \<and> hcp_customers s' = demoCustomers
       \<and> hcp_products s' = demoProducts \<and> hcp_payments s' = demoPayments
       \<and> map (\<lambda>i. (invoice_id i, invoice_total i, invoice_updatedBy i)) (hcp_invoices s')
           = [(''inv-001'', 570, Some ''Admin User''), (''inv-002'', 1445 / 2, None)]"
proof -
  from edit_changes_only_the_invoice_row [of demoEnv demoCustomers "Some adminUser"
      "hd demoInvoices" editForm editItems "Some (hd demoCustomers)" demoStorage]
  obtain s' where run: "Sales_editInvoice demoEnv demoCustomers (Some adminUser) (hd demoInvoices)
            editForm editItems (Some (hd demoCustomers)) demoStorage = Inr s'"
    and frame: "hcp_transactions s' = hcp_transactions demoStorage"
      "hcp_customers s' = hcp_customers demoStorage"
      "hcp_products s' = hcp_products demoStorage"
      "hcp_payments s' = hcp_payments demoStorage"
    by blast
  have items: "editItems = [\<lparr>item_productId = ''prod-001'', item_productName = ''Steel Beam 20ft'',
                     item_quantity = 4, item_unitPrice = 150, item_total = 600\<rparr>]"
    by (simp add: editItems_def updateItem_def demoInvoices_def)
  have "map (\<lambda>i. (invoice_id i, invoice_total i, invoice_updatedBy i))
          (invoicesAfter (Sales_editInvoice demoEnv demoCustomers (Some adminUser)
             (hd demoInvoices) editForm editItems (Some (hd demoCustomers)) demoStorage))
      = [(''inv-001'', 570, Some ''Admin User''), (''inv-002'', 1445 / 2, None)]"
    by (simp add: invoicesAfter_def Sales_editInvoice_def InvoiceForm_handleSubmit_def
          handleEditInvoice_def invoicesService_update_def invoiceData_def items editForm_def
          demoCustomers_def demoStorage_def demoInvoices_def calculations_def
          calculations_discountAmount_def calculations_total_def displayNameOrUnknown_def
          adminUser_def)
  then have rows: "map (\<lambda>i. (invoice_id i, invoice_total i, invoice_updatedBy i)) (hcp_invoices s')
      = [(''inv-001'', 570, Some ''Admin User''), (''inv-002'', 1445 / 2, None)]"
    unfolding run by (simp add: invoicesAfter_def)
  show ?thesis
    using run frame rows by (simp add: demoStorage_def)
qed

section \<open>Report date ranges: claim C7\<close>

text \<open>
  Claim C7. With a start date and an end date given, the date range of the summary report
  (invoices and payments) and of \<^verbatim>\<open>getFilteredData\<close> (any item that has a date) keeps exactly
  the records with \<open>startDate \<le> date \<le> endDate\<close> in the lexicographic order of strings:
  a record dated exactly \<open>startDate\<close> or exactly \<open>endDate\<close> is included, one strictly before
  \<open>startDate\<close> or strictly after \<open>endDate\<close> is excluded.
\<close>

theorem date_range_inclusive_on_both_ends:
  assumes range: "filter_startDate filters = Some startDate" "filter_endDate filters = Some endDate"
      and given: "startDate \<noteq> ''''" "endDate \<noteq> ''''"
  shows "((invoice \<in> set (filteredInvoices filters invoices))
            = (invoice \<in> set invoices \<and> startDate \<le> invoice_date invoice
                 \<and> invoice_date invoice \<le> endDate))
       \<and> ((payment \<in> set (filteredPayments filters payments))
            = (payment \<in> set payments \<and> startDate \<le> payment_date payment
                 \<and> payment_date payment \<le> endDate))
       \<and> (any_date (properties item) = Some d \<and> d \<noteq> '''' \<longrightarrow>
            (item \<in> set (getFilteredData properties filters data))
            = (item \<in> set data \<and> startDate \<le> d \<and> d \<le> endDate
                 \<and> matchesEquality filters (properties item)))
       \<and> (startDate \<le> endDate \<and> invoice \<in> set invoices
             \<and> (invoice_date invoice = startDate \<or> invoice_date invoice = endDate)
            \<longrightarrow> invoice \<in> set (filteredInvoices filters invoices))
       \<and> (startDate \<le> endDate \<and> payment \<in> set payments
             \<and> (payment_date payment = startDate \<or> payment_date payment = endDate)
            \<longrightarrow> payment \<in> set (filteredPayments filters payments))
       \<and> (startDate \<le> endDate \<and> item \<in> set data
             \<and> (any_date (properties item) = Some startDate
                  \<or> any_date (properties item) = Some endDate)
             \<and> matchesEquality filters (properties item)
            \<longrightarrow> item \<in> set (getFilteredData properties filters data))"
  using assms
  by (auto simp add: filteredInvoices_def filteredPayments_def atLeastStart_def atMostEnd_def
        getFilteredData_def keepItem_def truthy_def stringLess_def not_less)

theorem date_range_inclusive_on_both_ends_witness:
  "filter_startDate (dayFilter ''2024-06-20'') = Some ''2024-06-20''
   \<and> filter_endDate (dayFilter ''2024-06-20'') = Some ''2024-06-20''
   \<and> invoice_date (hd demoInvoices) = ''2024-06-20''
   \<and> payment_date (hd demoPayments) = ''2024-06-20''
   \<and> hd demoInvoices \<in> set (filteredInvoices (dayFilter ''2024-06-20'') demoInvoices)
   \<and> hd demoPayments \<in> set (filteredPayments (dayFilter ''2024-06-20'') demoPayments)
   \<and> hd demoInvoices
       \<in> set (getFilteredData invoiceProperties (dayFilter ''2024-06-20'') demoInvoices)
   \<and> hd demoInvoices \<notin> set (filteredInvoices (dayFilter ''2024-06-21'') demoInvoices)
   \<and> hd demoInvoices \<notin> set (filteredInvoices (dayFilter ''2024-06-19'') demoInvoices)"
proof -
  have a: "filter_startDate (dayFilter ''2024-06-20'') = Some ''2024-06-20''"
          "filter_endDate (dayFilter ''2024-06-20'') = Some ''2024-06-20''"
    by (simp_all add: dayFilter_def)
  have b: "filter_startDate (dayFilter ''2024-06-21'') = Some ''2024-06-21''"
          "filter_endDate (dayFilter ''2024-06-21'') = Some ''2024-06-21''"
    by (simp_all add: dayFilter_def)
  have c: "filter_startDate (dayFilter ''2024-06-19'') = Some ''2024-06-19''"
          "filter_endDate (dayFilter ''2024-06-19'') = Some ''2024-06-19''"
    by (simp_all add: dayFilter_def)
  have n: "''2024-06-20'' \<noteq> ''''" "''2024-06-21'' \<noteq> ''''" "''2024-06-19'' \<noteq> ''''" by simp_all
  have dates: "invoice_date (hd demoInvoices) = ''2024-06-20''"
    "payment_date (hd demoPayments) = ''2024-06-20''"
    "any_date (invoiceProperties (hd demoInvoices)) = Some ''2024-06-20''"
    by (simp_all add: demoInvoices_def demoPayments_def invoiceProperties_def)
  have mem: "hd demoInvoices \<in> set demoInvoices" "hd demoPayments \<in> set demoPayments"
    by (simp_all add: demoInvoices_def demoPayments_def)
  have eq: "matchesEquality (dayFilter ''2024-06-20'') (invoiceProperties (hd demoInvoices))"
    by (simp add: matchesEquality_def dayFilter_def truthy_def)
  note on = date_range_inclusive_on_both_ends [OF a n(1) n(1), of "hd demoInvoices" demoInvoices
      "hd demoPayments" demoPayments invoiceProperties "hd demoInvoices" "''2024-06-20''" demoInvoices]
  note after = date_range_inclusive_on_both_ends [OF b n(2) n(2), of "hd demoInvoices" demoInvoices
      "hd demoPayments" demoPayments invoiceProperties "hd demoInvoices" "''2024-06-20''" demoInvoices]
  note before = date_range_inclusive_on_both_ends [OF c n(3) n(3), of "hd demoInvoices" demoInvoices
      "hd demoPayments" demoPayments invoiceProperties "hd demoInvoices" "''2024-06-20''" demoInvoices]
  show ?thesis
    using on after before a dates mem eq by simp
qed

section \<open>Top selling products: claim C8\<close>















text \<open>An id that names an inherited member gets no entry of its own.\<close>

lemma inherited_id_has_no_entry:
  "map fst (productSales
     [(hd demoInvoices)\<lparr>invoice_items := [lineItem ''constructor'' 100, lineItem ''A'' 50]\<rparr>])
   = [''A'']"
  by (simp add: productSales_def recordItem_def lineItem_def Object_prototype_keys_def)




end
